theory Spec2Isabelle
  imports Complex_Main "HOL-Library.Signed_Division" "HOL-Library.Log_Nat"
begin

section \<open>JavaScript values used by the code\<close>

subsection \<open>Exceptions\<close>

text \<open>
  What a \<open>throw\<close> carries: an \<open>Error\<close> object with its message, or any other value
  (for which \<open>error instanceof Error\<close> is false).
\<close>

datatype js_exn = JsError string | NotAnError

definition bind :: "js_exn + 'a \<Rightarrow> ('a \<Rightarrow> js_exn + 'b) \<Rightarrow> js_exn + 'b" where
  "bind m f = (case m of Inl e \<Rightarrow> Inl e | Inr a \<Rightarrow> f a)"

subsection \<open>Digits, \<open>toString\<close> of integers, \<open>BigInt(string)\<close>\<close>

text \<open>Strings are byte strings; every character the code inspects is ASCII.\<close>

definition digit_table :: "(char \<times> nat) list" where
  "digit_table =
     [(CHR ''0'', 0), (CHR ''1'', 1), (CHR ''2'', 2), (CHR ''3'', 3), (CHR ''4'', 4),
      (CHR ''5'', 5), (CHR ''6'', 6), (CHR ''7'', 7), (CHR ''8'', 8), (CHR ''9'', 9),
      (CHR ''a'', 10), (CHR ''b'', 11), (CHR ''c'', 12), (CHR ''d'', 13), (CHR ''e'', 14),
      (CHR ''f'', 15), (CHR ''A'', 10), (CHR ''B'', 11), (CHR ''C'', 12), (CHR ''D'', 13),
      (CHR ''E'', 14), (CHR ''F'', 15)]"

definition digit_val :: "char \<Rightarrow> nat" where
  "digit_val c = (case map_of digit_table c of Some v \<Rightarrow> v | None \<Rightarrow> 0)"

definition is_digit_in :: "nat \<Rightarrow> char \<Rightarrow> bool" where
  "is_digit_in r c = (case map_of digit_table c of Some v \<Rightarrow> v < r | None \<Rightarrow> False)"

abbreviation is_digit :: "char \<Rightarrow> bool" where
  "is_digit \<equiv> is_digit_in 10"

definition radix_val :: "nat \<Rightarrow> string \<Rightarrow> nat" where
  "radix_val r s = foldl (\<lambda>a c. r * a + digit_val c) 0 s"

abbreviation dec_val :: "string \<Rightarrow> nat" where
  "dec_val \<equiv> radix_val 10"

definition digit_char :: "nat \<Rightarrow> char" where
  "digit_char n = ''0123456789'' ! n"

function show_nat :: "nat \<Rightarrow> string" where
  "show_nat n = (if n < 10 then [digit_char n] else show_nat (n div 10) @ [digit_char (n mod 10)])"
  by pat_completeness auto
termination
  by (relation "measure id") auto

declare show_nat.simps [simp del]

text \<open>\<open>toString()\<close> of a BigInt, and of an integer-valued Number below \<open>10^21\<close>.\<close>

definition show_int :: "int \<Rightarrow> string" where
  "show_int i = (if i < 0 then CHR ''-'' # show_nat (nat (- i)) else show_nat (nat i))"

text \<open>White space: space, tab, line feed, vertical tab, form feed, carriage return.\<close>

definition is_ws :: "char \<Rightarrow> bool" where
  "is_ws c = (c \<in> {CHR 0x20, CHR 0x09, CHR 0x0A, CHR 0x0B, CHR 0x0C, CHR 0x0D})"

definition trim_start :: "string \<Rightarrow> string" where
  "trim_start s = dropWhile is_ws s"

definition trim :: "string \<Rightarrow> string" where
  "trim s = rev (dropWhile is_ws (rev (dropWhile is_ws s)))"

text \<open>
  \<open>BigInt(s)\<close> for a string (StringToBigInt): white space is trimmed; the empty string
  is \<open>0n\<close>; decimal digits with an optional sign; \<open>0x\<close>, \<open>0o\<close>, \<open>0b\<close> literals
  without sign; anything else throws a SyntaxError.
\<close>

definition radix_literal :: "nat \<Rightarrow> string \<Rightarrow> int option" where
  "radix_literal r ds = (if ds \<noteq> [] \<and> list_all (is_digit_in r) ds
                         then Some (int (radix_val r ds)) else None)"

definition string_to_bigint :: "string \<Rightarrow> int option" where
  "string_to_bigint t =
     (if t = [] then Some 0
      else if list_all is_digit t then Some (int (dec_val t))
      else case t of
             c # ds \<Rightarrow>
               if c = CHR ''+'' then radix_literal 10 ds
               else if c = CHR ''-'' then map_option uminus (radix_literal 10 ds)
               else if c = CHR ''0'' then
                 (case ds of
                    p # hs \<Rightarrow>
                      if p = CHR ''x'' \<or> p = CHR ''X'' then radix_literal 16 hs
                      else if p = CHR ''o'' \<or> p = CHR ''O'' then radix_literal 8 hs
                      else if p = CHR ''b'' \<or> p = CHR ''B'' then radix_literal 2 hs
                      else None
                  | [] \<Rightarrow> None)
               else None
           | [] \<Rightarrow> None)"

definition BigInt :: "string \<Rightarrow> js_exn + int" where
  "BigInt s = (case string_to_bigint (trim s) of
                 Some i \<Rightarrow> Inr i
               | None \<Rightarrow> Inl (JsError (''Cannot convert '' @ s @ '' to a BigInt'')))"

subsection \<open>String methods\<close>

definition padStart :: "nat \<Rightarrow> char \<Rightarrow> string \<Rightarrow> string" where
  "padStart n c s = replicate (n - length s) c @ s"

definition padEnd :: "nat \<Rightarrow> char \<Rightarrow> string \<Rightarrow> string" where
  "padEnd n c s = s @ replicate (n - length s) c"

text \<open>\<open>s.replace(/0+$/, '')\<close>\<close>

definition strip_trailing_zeros :: "string \<Rightarrow> string" where
  "strip_trailing_zeros s = rev (dropWhile (\<lambda>c. c = CHR ''0'') (rev s))"

text \<open>\<open>s.split(sep)\<close> for a one-character separator: never an empty array.\<close>

fun split_on :: "char \<Rightarrow> string \<Rightarrow> string list" where
  "split_on sep [] = [[]]"
| "split_on sep (c # cs) =
     (if c = sep then [] # split_on sep cs
      else case split_on sep cs of
             p # ps \<Rightarrow> (c # p) # ps
           | [] \<Rightarrow> [[c]])"

subsection \<open>Numbers: \<open>parseFloat\<close> and \<open>>=\<close>\<close>

text \<open>
  A Number is NaN, an infinity, or a finite double, held as the rational it denotes
  (\<open>-0\<close> is held as \<open>0\<close>: the comparison \<open>>=\<close> does not tell them apart).
\<close>

datatype js_number = NaN | Finite rat | PosInfinity | NegInfinity

definition pow2 :: "int \<Rightarrow> rat" where
  "pow2 k = (if k \<ge> 0 then 2 ^ nat k else 1 / 2 ^ nat (- k))"

definition pow10 :: "int \<Rightarrow> rat" where
  "pow10 k = (if k \<ge> 0 then 10 ^ nat k else 1 / 10 ^ nat (- k))"

text \<open>\<open>\<lfloor>log\<^sub>2 q\<rfloor>\<close> for a positive rational.\<close>

definition floor_log2 :: "rat \<Rightarrow> int" where
  "floor_log2 q =
     (let (a, b) = quotient_of q;
          d = int (floorlog 2 (nat a)) - int (floorlog 2 (nat b))
      in if pow2 d \<le> q then d else d - 1)"

definition round_half_even :: "rat \<Rightarrow> int" where
  "round_half_even q =
     (let f = \<lfloor>q\<rfloor>; r = q - of_int f
      in if r < 1 / 2 then f else if 1 / 2 < r then f + 1
         else if even f then f else f + 1)"

text \<open>
  The double nearest to a non-negative rational (IEEE 754 binary64, round to nearest,
  ties to even): 53 significant bits, least exponent \<open>-1074\<close>, overflow at \<open>2^1024\<close>.
  This is the Number that Chrome's \<open>parseFloat\<close> gives for a decimal literal of that
  value.
\<close>

definition to_double :: "rat \<Rightarrow> js_number" where
  "to_double q =
     (if q = 0 then Finite 0
      else
        let p = max (floor_log2 q - 52) (- 1074);
            v = of_int (round_half_even (q / pow2 p)) * pow2 p
        in if pow2 1024 \<le> v then PosInfinity else Finite v)"

definition negate :: "js_number \<Rightarrow> js_number" where
  "negate x = (case x of NaN \<Rightarrow> NaN | Finite q \<Rightarrow> Finite (- q)
               | PosInfinity \<Rightarrow> NegInfinity | NegInfinity \<Rightarrow> PosInfinity)"

text \<open>
  The value of the exponent part of a decimal literal (\<open>e\<close> or \<open>E\<close>, an optional
  sign, digits) if the text starts with one, and 0 if it does not.
\<close>

definition exponent_part :: "string \<Rightarrow> int" where
  "exponent_part s =
     (case s of
        [] \<Rightarrow> 0
      | e # t \<Rightarrow>
          if e = CHR ''e'' \<or> e = CHR ''E'' then
            (let (neg, u) = (case t of
                               [] \<Rightarrow> (False, t)
                             | g # u \<Rightarrow> if g = CHR ''-'' then (True, u)
                                        else if g = CHR ''+'' then (False, u)
                                        else (False, t));
                 ds = takeWhile is_digit u
             in if ds = [] then 0
                else if neg then - int (dec_val ds) else int (dec_val ds))
          else 0)"

text \<open>
  The longest prefix of the text that is an unsigned decimal literal
  (\<open>Infinity\<close>, \<open>digits\<close>, \<open>digits.\<close>, \<open>digits.digits\<close>, \<open>.digits\<close>, each of the
  numeric ones with an optional exponent), as the double it denotes; NaN if there is
  no such prefix.
\<close>

definition unsigned_literal :: "string \<Rightarrow> js_number" where
  "unsigned_literal s =
     (if take 8 s = ''Infinity'' then PosInfinity
      else
        let ds1 = takeWhile is_digit s;
            r1 = dropWhile is_digit s;
            dot = (r1 \<noteq> [] \<and> hd r1 = CHR ''.'');
            ds2 = (if dot then takeWhile is_digit (tl r1) else []);
            r2 = (if dot then dropWhile is_digit (tl r1) else r1)
        in if ds1 = [] \<and> ds2 = [] then NaN
           else to_double (of_nat (dec_val (ds1 @ ds2))
                           * pow10 (exponent_part r2 - int (length ds2))))"

definition parseFloat :: "string \<Rightarrow> js_number" where
  "parseFloat s =
     (case trim_start s of
        [] \<Rightarrow> NaN
      | c # t \<Rightarrow>
          if c = CHR ''-'' then negate (unsigned_literal t)
          else if c = CHR ''+'' then unsigned_literal t
          else unsigned_literal (c # t))"

text \<open>\<open>a >= b\<close> on Numbers: false as soon as one of them is NaN.\<close>

definition js_ge :: "js_number \<Rightarrow> js_number \<Rightarrow> bool" where
  "js_ge a b =
     (case (a, b) of
        (NaN, _) \<Rightarrow> False
      | (_, NaN) \<Rightarrow> False
      | (PosInfinity, _) \<Rightarrow> True
      | (_, NegInfinity) \<Rightarrow> True
      | (Finite x, Finite y) \<Rightarrow> y \<le> x
      | (_, _) \<Rightarrow> False)"

section \<open>Transport: class WebSocketManager (src/lib/websocket.ts)\<close>

text \<open>
  The browser's socket object. Its \<open>readyState\<close> is owned by the browser; within one
  synchronous run of the program it can only change as a side effect of a call of
  \<open>ws.send\<close>. The field \<open>fate\<close> is the environment's script for that: the ready states
  the socket shows after each further call of \<open>ws.send\<close> (when it is used up, the state
  stays as it is).
\<close>

datatype ready_state = CONNECTING | OPEN | CLOSING | CLOSED

record WebSocket =
  readyState :: ready_state
  fate :: "ready_state list"

text \<open>
  The fields of the class (the handler registry is not part of this state: the waits
  built on it are modelled below by the messages that arrive). Three ghost fields log
  the calls made on the browser: \<open>transmitted\<close> the frames handed to \<open>ws.send\<close>,
  \<open>scheduled\<close> the delays handed to \<open>setTimeout\<close>, \<open>cleared\<close> the timer handles
  handed to \<open>clearTimeout\<close>. A timer handle is the position of its delay in
  \<open>scheduled\<close>, counted from 1.
\<close>

record WebSocketManager =
  ws :: "WebSocket option"
  reconnectAttempts :: nat
  maxReconnectAttempts :: nat
  messageQueue :: "string list"
  reconnectTimeout :: "nat option"
  transmitted :: "string list"
  scheduled :: "nat list"
  cleared :: "nat list"

definition newWebSocketManager :: WebSocketManager where
  "newWebSocketManager =
     \<lparr>ws = None, reconnectAttempts = 0, maxReconnectAttempts = 10, messageQueue = [],
      reconnectTimeout = None, transmitted = [], scheduled = [], cleared = []\<rparr>"

definition isConnected :: "WebSocketManager \<Rightarrow> bool" where
  "isConnected st = (case ws st of None \<Rightarrow> False | Some s \<Rightarrow> readyState s = OPEN)"

text \<open>\<open>this.ws.send(m)\<close> on the current socket: the frame is logged, the socket moves on.\<close>

definition ws_send :: "string \<Rightarrow> WebSocketManager \<Rightarrow> WebSocketManager" where
  "ws_send m st =
     (case ws st of
        None \<Rightarrow> st
      | Some s \<Rightarrow>
          st\<lparr>transmitted := transmitted st @ [m],
             ws := Some (case fate s of
                           [] \<Rightarrow> s
                         | r # rs \<Rightarrow> s\<lparr>readyState := r, fate := rs\<rparr>)\<rparr>)"

definition scheduleReconnect :: "WebSocketManager \<Rightarrow> WebSocketManager" where
  "scheduleReconnect st =
     (if reconnectAttempts st \<ge> maxReconnectAttempts st then st
      else
        let st1 = st\<lparr>reconnectAttempts := reconnectAttempts st + 1\<rparr>;
            delay = min (1000 * 2 ^ reconnectAttempts st1) 30000;
            st2 = (case reconnectTimeout st1 of
                     None \<Rightarrow> st1
                   | Some h \<Rightarrow> st1\<lparr>cleared := cleared st1 @ [h]\<rparr>)
        in st2\<lparr>scheduled := scheduled st2 @ [delay],
               reconnectTimeout := Some (Suc (length (scheduled st2)))\<rparr>)"

text \<open>
  \<open>connect\<close>; the argument \<open>mk\<close> is the outcome of \<open>new WebSocket(CLEARNODE_WS_URL)\<close>:
  the new socket, or the exception of the constructor.
\<close>

definition connect :: "js_exn + WebSocket \<Rightarrow> WebSocketManager \<Rightarrow> WebSocketManager" where
  "connect mk st =
     (if isConnected st then st
      else case mk of
             Inr s \<Rightarrow> st\<lparr>ws := Some s\<rparr>
           | Inl e \<Rightarrow> scheduleReconnect st)"

text \<open>
  \<open>send\<close>, on the serialised message \<open>messageStr\<close> of its first line.
\<close>

definition send :: "js_exn + WebSocket \<Rightarrow> string \<Rightarrow> WebSocketManager \<Rightarrow> WebSocketManager" where
  "send mk messageStr st =
     (if isConnected st then ws_send messageStr st
      else
        let st1 = st\<lparr>messageQueue := messageQueue st @ [messageStr]\<rparr>
        in if (case ws st1 of None \<Rightarrow> True | Some s \<Rightarrow> readyState s = CLOSED)
           then connect mk st1 else st1)"

text \<open>The \<open>while\<close> loop of \<open>flushMessageQueue\<close>: one \<open>shift\<close> per turn.\<close>

function flush_loop :: "WebSocketManager \<Rightarrow> WebSocketManager" where
  "flush_loop st =
     (case messageQueue st of
        [] \<Rightarrow> st
      | message # rest \<Rightarrow>
          (let st1 = st\<lparr>messageQueue := rest\<rparr>
           in flush_loop (if isConnected st1 then ws_send message st1 else st1)))"
  by pat_completeness auto
termination
  by (relation "measure (\<lambda>st. length (messageQueue st))")
     (auto simp: ws_send_def split: option.splits)

declare flush_loop.simps [simp del]

definition flushMessageQueue :: "WebSocketManager \<Rightarrow> WebSocketManager" where
  "flushMessageQueue st = (if messageQueue st = [] then st else flush_loop st)"

definition handleOpen :: "WebSocketManager \<Rightarrow> WebSocketManager" where
  "handleOpen st = flushMessageQueue (st\<lparr>reconnectAttempts := 0\<rparr>)"

text \<open>
  The browser opens the current socket: its \<open>readyState\<close> becomes \<open>OPEN\<close> and its
  \<open>onopen\<close> callback, \<open>handleOpen\<close>, is called.
\<close>

definition socket_opened :: "WebSocketManager \<Rightarrow> WebSocketManager" where
  "socket_opened st =
     handleOpen (st\<lparr>ws := map_option (\<lambda>s. s\<lparr>readyState := OPEN\<rparr>) (ws st)\<rparr>)"

definition handleClose :: "WebSocketManager \<Rightarrow> WebSocketManager" where
  "handleClose st = scheduleReconnect (st\<lparr>ws := None\<rparr>)"

text \<open>
  One failed connection attempt, first to last: \<open>connect\<close> runs (called by the
  program or by the reconnect timer); either the constructor throws, and \<open>connect\<close>
  itself schedules the next attempt, or the socket is created and later closes without
  having opened, and the browser calls \<open>handleClose\<close>.
\<close>

definition failed_attempt :: "js_exn + WebSocket \<Rightarrow> WebSocketManager \<Rightarrow> WebSocketManager" where
  "failed_attempt mk st = (case mk of Inl e \<Rightarrow> connect mk st | Inr s \<Rightarrow> handleClose (connect mk st))"

text \<open>
  A freshly constructed manager whose connection attempts all fail, one entry of the
  list for each attempt.
\<close>

definition failures :: "(js_exn + WebSocket) list \<Rightarrow> WebSocketManager" where
  "failures mks = foldl (\<lambda>st mk. failed_attempt mk st) newWebSocketManager mks"

definition disconnect :: "WebSocketManager \<Rightarrow> WebSocketManager" where
  "disconnect st =
     (let st1 = (case reconnectTimeout st of
                   None \<Rightarrow> st
                 | Some h \<Rightarrow> st\<lparr>cleared := cleared st @ [h], reconnectTimeout := None\<rparr>)
      in st1\<lparr>ws := None, reconnectAttempts := 0, messageQueue := []\<rparr>)"

section \<open>Messages\<close>

text \<open>
  What \<open>JSON.parse\<close> yields, together with \<open>undefined\<close>, the value of a property
  that is not there. Numbers in messages are request ids and time stamps, so \<open>JNum\<close>
  holds an integer.
\<close>

datatype json =
    JUndefined
  | JNull
  | JBool bool
  | JNum int
  | JStr string
  | JArr "json list"
  | JObj "(string \<times> json) list"

text \<open>Truthiness, as \<open>!x\<close>, \<open>x && y\<close>, \<open>x || y\<close> and \<open>if (x)\<close> test it.\<close>

fun truthy :: "json \<Rightarrow> bool" where
  "truthy JUndefined = False"
| "truthy JNull = False"
| "truthy (JBool b) = b"
| "truthy (JNum n) = (n \<noteq> 0)"
| "truthy (JStr s) = (s \<noteq> [])"
| "truthy (JArr xs) = True"
| "truthy (JObj kvs) = True"

text \<open>
  \<open>v.name\<close>, for the property names the code reads (\<open>res\<close>, \<open>type\<close>,
  \<open>challenge_message\<close>, \<open>session_id\<close>, \<open>balance\<close>, \<open>asset\<close>; none of them is a
  built-in property of an array, a string, a number or a boolean). Reading a property
  of \<open>undefined\<close> or \<open>null\<close> throws a TypeError, with the text Chrome gives it.
\<close>

fun js_get :: "string \<Rightarrow> json \<Rightarrow> js_exn + json" where
  "js_get name JUndefined =
     Inl (JsError (''Cannot read properties of undefined (reading '' @ [CHR 0x27] @ name @ [CHR 0x27] @ '')''))"
| "js_get name JNull =
     Inl (JsError (''Cannot read properties of null (reading '' @ [CHR 0x27] @ name @ [CHR 0x27] @ '')''))"
| "js_get name (JObj kvs) = Inr (case map_of kvs name of Some v \<Rightarrow> v | None \<Rightarrow> JUndefined)"
| "js_get name v = Inr JUndefined"

text \<open>\<open>v[i]\<close> for an index \<open>i\<close>.\<close>

fun js_idx :: "nat \<Rightarrow> json \<Rightarrow> js_exn + json" where
  "js_idx i JUndefined =
     Inl (JsError (''Cannot read properties of undefined (reading '' @ [CHR 0x27] @ show_nat i @ [CHR 0x27] @ '')''))"
| "js_idx i JNull =
     Inl (JsError (''Cannot read properties of null (reading '' @ [CHR 0x27] @ show_nat i @ [CHR 0x27] @ '')''))"
| "js_idx i (JArr xs) = Inr (if i < length xs then xs ! i else JUndefined)"
| "js_idx i (JStr s) = Inr (if i < length s then JStr [s ! i] else JUndefined)"
| "js_idx i (JObj kvs) = Inr (case map_of kvs (show_nat i) of Some v \<Rightarrow> v | None \<Rightarrow> JUndefined)"
| "js_idx i v = Inr JUndefined"

text \<open>
  \<open>message.res?.[2]\<close>, as \<open>subscribeToBalanceUpdates\<close> reads it: the payload of an
  envelope, \<open>undefined\<close> when the message has no \<open>res\<close> or \<open>res\<close> has no third entry.
\<close>

definition payload_of :: "json \<Rightarrow> json" where
  "payload_of message =
     (case js_get ''res'' message of
        Inl e \<Rightarrow> JUndefined
      | Inr res \<Rightarrow>
          (case res of
             JUndefined \<Rightarrow> JUndefined
           | JNull \<Rightarrow> JUndefined
           | _ \<Rightarrow> (case js_idx 2 res of Inl e \<Rightarrow> JUndefined | Inr p \<Rightarrow> p)))"


fun isArray :: "json \<Rightarrow> bool" where
  "isArray (JArr xs) = True"
| "isArray v = False"

text \<open>
  \<open>WebSocketManager.getMessageType\<close>: the routing key. It is whatever value sits in
  \<open>res[1]\<close> or \<open>type\<close>; the call throws when the message is \<open>null\<close>.
\<close>

definition getMessageType :: "json \<Rightarrow> js_exn + json" where
  "getMessageType message =
     bind (js_get ''res'' message) (\<lambda>res.
       if truthy res \<and> isArray res \<and> (case js_idx 1 res of Inr v \<Rightarrow> truthy v | Inl e \<Rightarrow> False)
       then js_idx 1 res
       else bind (js_get ''type'' message) (\<lambda>ty.
         if truthy ty then Inr ty else Inr (JStr ''unknown'')))"

text \<open>
  \<open>handleMessage\<close> calls the handlers registered under the routing key, then those
  registered under \<open>'message'\<close>; when \<open>getMessageType\<close> throws, the outer \<open>catch\<close>
  is reached before any handler is called. Handlers are registered under strings.
\<close>

definition routed_to :: "string \<Rightarrow> json \<Rightarrow> bool" where
  "routed_to event message =
     (case getMessageType message of
        Inl e \<Rightarrow> False
      | Inr k \<Rightarrow> k = JStr event \<or> event = ''message'')"

section \<open>Authentication: class AuthManager\<close>

record allowance =
  asset :: string
  amount :: string

record SessionKey =
  privateKey :: string
  publicKey :: string
  expiresAt :: int
  allowances :: "allowance list"

text \<open>
  The object \<open>authParams\<close>: address, application, session_key, allowances, expires_at,
  scope.
\<close>

datatype auth_params = AuthParams string string string "allowance list" int string

definition authParams_of :: "SessionKey \<Rightarrow> string \<Rightarrow> auth_params" where
  "authParams_of sessionKey userAddress =
     AuthParams userAddress ''YellowPay Extension'' (publicKey sessionKey)
       (allowances sessionKey) (expiresAt sessionKey div 1000) ''content.payments''"

record auth_result =
  success :: bool
  balance :: "json option"
  error :: "string option"

text \<open>
  \<open>waitForMessage(messageType, timeout)\<close>. The argument \<open>arrivals\<close> lists the messages
  that \<open>handleMessage\<close> receives from the moment the handler is registered until the
  timer of the wait fires, in order. The first one routed to \<open>messageType\<close> resolves the
  promise; if there is none the timer rejects it.
\<close>

definition waitForMessage :: "string \<Rightarrow> json list \<Rightarrow> js_exn + json" where
  "waitForMessage messageType arrivals =
     (case find (routed_to messageType) arrivals of
        Some message \<Rightarrow> Inr message
      | None \<Rightarrow> Inl (JsError (''Timeout waiting for '' @ messageType)))"

text \<open>
  What one handshake meets outside the program:
  \<^item> \<open>connectedAtStart\<close>: the answer of \<open>isConnected()\<close> at the start;
  \<^item> \<open>opensInTime\<close>: whether the polling of \<open>waitForConnection(5000)\<close> sees the
    connection open before its deadline;
  \<^item> \<open>createAuthRequestMessage\<close>: the SDK function of that name;
  \<^item> \<open>challengeArrivals\<close>, \<open>successArrivals\<close>: the messages arriving during the two waits;
  \<^item> \<open>createAuthVerifyMessage\<close>: \<open>createEIP712AuthMessageSigner\<close> on the wallet
    client and \<open>authParams\<close>, followed by \<open>createAuthVerifyMessageFromChallenge\<close> on the
    challenge.
\<close>

record auth_env =
  connectedAtStart :: bool
  opensInTime :: bool
  createAuthRequestMessage :: "auth_params \<Rightarrow> js_exn + string"
  challengeArrivals :: "json list"
  createAuthVerifyMessage :: "auth_params \<Rightarrow> json \<Rightarrow> js_exn + string"
  successArrivals :: "json list"

text \<open>The calls a handshake makes on the transport and on the signer, in order.\<close>

datatype auth_action = WsConnect | WsSend string | SignChallenge json

text \<open>
  Lines 125 to 129 of \<open>_performAuthentication\<close>: the guard on the challenge
  response, then the read of \<open>res[2].challenge_message\<close>.
\<close>

definition extract_challenge :: "json \<Rightarrow> js_exn + json" where
  "extract_challenge challengeResponse =
     (if \<not> truthy challengeResponse then Inl (JsError ''Invalid auth_challenge response'')
      else bind (js_get ''res'' challengeResponse) (\<lambda>res.
        if \<not> truthy res then Inl (JsError ''Invalid auth_challenge response'')
        else bind (js_idx 2 res) (\<lambda>payload.
          if \<not> truthy payload then Inl (JsError ''Invalid auth_challenge response'')
          else js_get ''challenge_message'' payload)))"

text \<open>
  Lines 151 to 162: the guard on the success response, the reads of
  \<open>responseData.session_id\<close> and \<open>responseData.balance\<close>.
\<close>

definition extract_balance :: "json \<Rightarrow> js_exn + json" where
  "extract_balance successResponse =
     (if \<not> truthy successResponse then Inl (JsError ''Invalid auth_success response'')
      else bind (js_get ''res'' successResponse) (\<lambda>res.
        if \<not> truthy res then Inl (JsError ''Invalid auth_success response'')
        else bind (js_idx 2 res) (\<lambda>responseData.
          bind (js_get ''session_id'' responseData) (\<lambda>sid.
            js_get ''balance'' responseData))))"

text \<open>
  The \<open>try\<close> block of \<open>_performAuthentication\<close>, in two parts: from a received
  challenge response on (steps 3 and 4), and the whole block. Each gives the balance
  returned or the exception that leaves the block, with the calls made up to there.
\<close>

definition auth_verify ::
  "auth_env \<Rightarrow> auth_params \<Rightarrow> auth_action list \<Rightarrow> json \<Rightarrow> (js_exn + json) \<times> auth_action list" where
  "auth_verify env authParams t1 challengeResponse =
     (case extract_challenge challengeResponse of
        Inl e \<Rightarrow> (Inl e, t1)
      | Inr challengeMessage \<Rightarrow>
          (let t2 = t1 @ [SignChallenge challengeMessage]
           in case createAuthVerifyMessage env authParams challengeMessage of
                Inl e \<Rightarrow> (Inl e, t2)
              | Inr verifyMsg \<Rightarrow>
                  (let t3 = t2 @ [WsSend verifyMsg]
                   in case waitForMessage ''auth_success'' (successArrivals env) of
                        Inl e \<Rightarrow> (Inl e, t3)
                      | Inr successResponse \<Rightarrow> (extract_balance successResponse, t3))))"

definition auth_try ::
  "auth_env \<Rightarrow> SessionKey \<Rightarrow> string \<Rightarrow> (js_exn + json) \<times> auth_action list" where
  "auth_try env sessionKey userAddress =
     (let t0 = (if connectedAtStart env then [] else [WsConnect])
      in if \<not> connectedAtStart env \<and> \<not> opensInTime env
         then (Inl (JsError ''WebSocket connection timeout''), t0)
         else
           (let authParams = authParams_of sessionKey userAddress
            in case createAuthRequestMessage env authParams of
                 Inl e \<Rightarrow> (Inl e, t0)
               | Inr authRequestMsg \<Rightarrow>
                   (let t1 = t0 @ [WsSend authRequestMsg]
                    in case waitForMessage ''auth_challenge'' (challengeArrivals env) of
                         Inl e \<Rightarrow> (Inl e, t1)
                       | Inr challengeResponse \<Rightarrow>
                           auth_verify env authParams t1 challengeResponse)))"

definition performAuthentication :: "auth_env \<Rightarrow> SessionKey \<Rightarrow> string \<Rightarrow> auth_result \<times> auth_action list" where
  "performAuthentication env sessionKey userAddress =
     (case auth_try env sessionKey userAddress of
        (Inr b, t) \<Rightarrow> (\<lparr>success = True, balance = Some b, error = None\<rparr>, t)
      | (Inl e, t) \<Rightarrow>
          (\<lparr>success = False, balance = None,
            error = Some (case e of JsError msg \<Rightarrow> msg | NotAnError \<Rightarrow> ''Unknown error'')\<rparr>, t))"

text \<open>
  The fields of the class. A promise is held as the value it settles with:
  \<open>_performAuthentication\<close> catches everything, so its promise always resolves with a
  result. \<open>None\<close> is \<open>null\<close>.
\<close>

record AuthManager =
  authInProgress :: bool
  authPromise :: "auth_result option"

definition newAuthManager :: AuthManager where
  "newAuthManager = \<lparr>authInProgress = False, authPromise = None\<rparr>"

text \<open>
  \<open>authenticate\<close>, up to its \<open>await\<close>: a call that finds a handshake in flight returns
  that handshake's promise and changes nothing; any other call raises the flag and
  starts a handshake. The result is what the returned promise settles with, the calls
  made by the handshake this call started, and the state while the handshake runs.
\<close>

definition authenticate_enter ::
  "auth_env \<Rightarrow> SessionKey \<Rightarrow> string \<Rightarrow> AuthManager \<Rightarrow> auth_result option \<times> auth_action list \<times> AuthManager" where
  "authenticate_enter env sessionKey userAddress am =
     (if authInProgress am then (authPromise am, [], am)
      else
        let (r, t) = performAuthentication env sessionKey userAddress
        in (Some r, t, am\<lparr>authInProgress := True, authPromise := Some r\<rparr>))"

text \<open>The \<open>finally\<close> block, run when the promise this call awaits has settled.\<close>

definition authenticate_finally :: "AuthManager \<Rightarrow> AuthManager" where
  "authenticate_finally am = am\<lparr>authInProgress := False, authPromise := None\<rparr>"

text \<open>A whole call of \<open>authenticate\<close>, from entry to the settling of its promise.\<close>

definition authenticate ::
  "auth_env \<Rightarrow> SessionKey \<Rightarrow> string \<Rightarrow> AuthManager \<Rightarrow> auth_result option \<times> auth_action list \<times> AuthManager" where
  "authenticate env sessionKey userAddress am =
     (if authInProgress am then authenticate_enter env sessionKey userAddress am
      else
        let (r, t, am1) = authenticate_enter env sessionKey userAddress am
        in (r, t, authenticate_finally am1))"

definition isAuthenticated :: "WebSocketManager \<Rightarrow> AuthManager \<Rightarrow> bool" where
  "isAuthenticated wsManager am = (isConnected wsManager \<and> \<not> authInProgress am)"

definition logout :: "WebSocketManager \<Rightarrow> AuthManager \<Rightarrow> WebSocketManager \<times> AuthManager" where
  "logout wsManager am = (disconnect wsManager, am\<lparr>authInProgress := False, authPromise := None\<rparr>)"

section \<open>Session keys: class SessionKeyManager\<close>

definition SESSION_KEY_DURATION :: int where
  "SESSION_KEY_DURATION = 3600000"

text \<open>The two entries of \<open>chrome.storage.local\<close> that the class reads and writes.\<close>

record Storage =
  encryptedSessionKey :: "string option"
  sessionKeyExpiry :: "int option"

text \<open>
  What the class calls outside the repository:
  \<^item> \<open>encrypt\<close>: \<open>CryptoJS.AES.encrypt(data, password).toString()\<close>;
  \<^item> \<open>decrypt\<close>: \<open>CryptoJS.AES.decrypt(encrypted, password).toString(CryptoJS.enc.Utf8)\<close>,
    which throws on bytes that are not UTF-8;
  \<^item> \<open>stringify\<close>, \<open>parse\<close>: \<open>JSON.stringify\<close> and \<open>JSON.parse\<close> at the type
    \<open>SessionKey\<close>;
  \<^item> \<open>generatePrivateKey\<close>: the key that viem's function of that name draws at this
    call; \<open>addressOf\<close>: \<open>privateKeyToAccount(key).address\<close>;
  \<^item> \<open>getError\<close>, \<open>setError\<close>, \<open>removeError\<close>: the exception with which the call of
    \<open>chrome.storage.local.get\<close>, \<open>set\<close>, \<open>remove\<close> rejects, if it does.
\<close>

record key_env =
  encrypt :: "string \<Rightarrow> string \<Rightarrow> string"
  decrypt :: "string \<Rightarrow> string \<Rightarrow> js_exn + string"
  stringify :: "SessionKey \<Rightarrow> string"
  parse :: "string \<Rightarrow> js_exn + SessionKey"
  generatePrivateKey :: string
  addressOf :: "string \<Rightarrow> string"
  getError :: "js_exn option"
  setError :: "js_exn option"
  removeError :: "js_exn option"

text \<open>The argument \<open>now\<close> is the value of \<open>Date.now()\<close>.\<close>

definition generateSessionKey :: "key_env \<Rightarrow> int \<Rightarrow> allowance list \<Rightarrow> SessionKey" where
  "generateSessionKey env now allowances' =
     (let sessionPrivateKey = generatePrivateKey env
      in \<lparr>privateKey = sessionPrivateKey,
          publicKey = addressOf env sessionPrivateKey,
          expiresAt = now + SESSION_KEY_DURATION,
          allowances = allowances'\<rparr>)"

definition saveToStorage :: "key_env \<Rightarrow> SessionKey \<Rightarrow> string \<Rightarrow> Storage \<Rightarrow> js_exn + Storage" where
  "saveToStorage env sessionKey password stg =
     (let encrypted = encrypt env (stringify env sessionKey) password
      in case setError env of
           Some e \<Rightarrow> Inl e
         | None \<Rightarrow> Inr (stg\<lparr>encryptedSessionKey := Some encrypted,
                             sessionKeyExpiry := Some (expiresAt sessionKey)\<rparr>))"

definition clearFromStorage :: "key_env \<Rightarrow> Storage \<Rightarrow> Storage" where
  "clearFromStorage env stg =
     (case removeError env of
        Some e \<Rightarrow> stg
      | None \<Rightarrow> stg\<lparr>encryptedSessionKey := None, sessionKeyExpiry := None\<rparr>)"

definition isExpired :: "int \<Rightarrow> SessionKey \<Rightarrow> bool" where
  "isExpired now sessionKey = (now > expiresAt sessionKey)"

text \<open>
  \<open>loadFromStorage\<close>: the key or \<open>null\<close> (\<open>None\<close>), and the storage afterwards.
  \<open>!result.encryptedSessionKey\<close> holds for a missing entry and for the empty string.
\<close>

definition loadFromStorage :: "key_env \<Rightarrow> int \<Rightarrow> string \<Rightarrow> Storage \<Rightarrow> SessionKey option \<times> Storage" where
  "loadFromStorage env now password stg =
     (case getError env of
        Some e \<Rightarrow> (None, stg)
      | None \<Rightarrow>
          (case encryptedSessionKey stg of
             None \<Rightarrow> (None, stg)
           | Some encrypted \<Rightarrow>
               if encrypted = [] then (None, stg)
               else
                 (case bind (decrypt env encrypted password) (parse env) of
                    Inl e \<Rightarrow> (None, stg)
                  | Inr sessionKey \<Rightarrow>
                      if isExpired now sessionKey then (None, clearFromStorage env stg)
                      else (Some sessionKey, stg))))"

definition needsRotation :: "int \<Rightarrow> SessionKey \<Rightarrow> string \<Rightarrow> string \<Rightarrow> bool" where
  "needsRotation now sessionKey spentAmount asset' =
     (if isExpired now sessionKey then True
      else
        (case find (\<lambda>a. asset a = asset') (allowances sessionKey) of
           Some allowance \<Rightarrow>
             (let spent = parseFloat spentAmount;
                  limit = parseFloat (amount allowance)
              in if js_ge spent limit then True else False)
         | None \<Rightarrow> False))"

definition default_allowances :: "allowance list" where
  "default_allowances = [\<lparr>asset = ''ytest.usd'', amount = ''100''\<rparr>]"

text \<open>
  \<open>rotateIfNeeded\<close>; \<open>now\<close> is the clock read by \<open>isExpired\<close>, \<open>now'\<close> the clock read by
  \<open>generateSessionKey\<close>. \<open>Inl\<close> is the exception that \<open>saveToStorage\<close> rethrows.
  \<open>rotate_to\<close> is the body of the \<open>if\<close>, on the allowances chosen by
  \<open>sessionKey?.allowances || [...]\<close>: the default ones without a key, the key's own
  (an array, hence truthy) with one.
\<close>

definition rotate_to ::
  "key_env \<Rightarrow> int \<Rightarrow> allowance list \<Rightarrow> string \<Rightarrow> Storage \<Rightarrow> js_exn + SessionKey \<times> Storage" where
  "rotate_to env now' allowances' password stg =
     (let newSessionKey = generateSessionKey env now' allowances'
      in case saveToStorage env newSessionKey password stg of
           Inl e \<Rightarrow> Inl e
         | Inr stg' \<Rightarrow> Inr (newSessionKey, stg'))"

definition rotateIfNeeded ::
  "key_env \<Rightarrow> int \<Rightarrow> int \<Rightarrow> SessionKey option \<Rightarrow> string \<Rightarrow> string \<Rightarrow> string \<Rightarrow> Storage
     \<Rightarrow> js_exn + SessionKey \<times> Storage" where
  "rotateIfNeeded env now now' sessionKey spentAmount asset' password stg =
     (case sessionKey of
        None \<Rightarrow> rotate_to env now' default_allowances password stg
      | Some k \<Rightarrow>
          if needsRotation now k spentAmount asset'
          then rotate_to env now' (allowances k) password stg
          else Inr (k, stg))"

section \<open>Balances: class BalanceManager\<close>

text \<open>
  An entry of \<open>balanceCache\<close>: its \<open>amount\<close> (written \<open>amount'\<close> here, the name being
  taken by the allowance) is whatever value the server sent as balance.
\<close>

record cache_entry =
  amount' :: json
  timestamp :: int

record BalanceManager =
  balanceCache :: "string \<rightharpoonup> cache_entry"
  cacheDuration :: int


text \<open>
  The listener that the constructor registers under \<open>balance_update\<close> (through
  \<open>setupBalanceUpdateListener\<close> and \<open>subscribeToBalanceUpdates\<close>), called with a message
  at the clock reading \<open>now\<close>: when the payload has a truthy \<open>asset\<close> and a truthy
  \<open>balance\<close>, the cache entry of that asset is overwritten. The cache is a
  \<open>Map\<close> looked up with strings only, so an entry set under an \<open>asset\<close> that is not
  a string can never be found and is left out.
\<close>

definition on_balance_update :: "int \<Rightarrow> json \<Rightarrow> BalanceManager \<Rightarrow> BalanceManager" where
  "on_balance_update now message bm =
     (let data = payload_of message
      in if \<not> truthy data then bm
         else case js_get ''asset'' data of
                Inl e \<Rightarrow> bm
              | Inr a \<Rightarrow>
                  if \<not> truthy a then bm
                  else case js_get ''balance'' data of
                         Inl e \<Rightarrow> bm
                       | Inr b \<Rightarrow>
                           if \<not> truthy b then bm
                           else case a of
                                  JStr k \<Rightarrow>
                                    bm\<lparr>balanceCache := (balanceCache bm)
                                          (k \<mapsto> \<lparr>amount' = b, timestamp = now\<rparr>)\<rparr>
                                | _ \<Rightarrow> bm)"

text \<open>
  What \<open>handleMessage\<close> does to the manager with one arriving message, given with the
  clock reading at its arrival: the listener runs if the message is routed to
  \<open>balance_update\<close>.
\<close>

definition deliver :: "int \<times> json \<Rightarrow> BalanceManager \<Rightarrow> BalanceManager" where
  "deliver a bm =
     (if routed_to ''balance_update'' (snd a) then on_balance_update (fst a) (snd a) bm else bm)"

text \<open>
  What one call of \<open>getUnifiedBalance\<close> meets outside the program: the four readings of
  \<open>Date.now()\<close> in the order of the code (\<open>nowCheck\<close> at the cache test, \<open>requestId\<close>,
  \<open>requestTime\<close>, \<open>nowStore\<close> at the cache update), the exception thrown by
  \<open>wsManager.send(request)\<close> if it throws, and the messages that arrive while
  \<open>waitForBalanceResponse\<close> waits, in order, each with the clock reading at its arrival.
\<close>

record balance_env =
  nowCheck :: int
  requestId :: int
  requestTime :: int
  nowStore :: int
  sendError :: "js_exn option"
  arrivals :: "(int \<times> json) list"

text \<open>The test of the handler in \<open>waitForBalanceResponse\<close>, with its \<open>catch\<close>.\<close>

definition is_response_to :: "int \<Rightarrow> json \<Rightarrow> bool" where
  "is_response_to rid message =
     (case bind (js_get ''res'' message) (\<lambda>res.
             if truthy res then bind (js_idx 0 res) (\<lambda>v. Inr (v = JNum rid)) else Inr False) of
        Inr b \<Rightarrow> b
      | Inl e \<Rightarrow> False)"

text \<open>
  \<open>waitForBalanceResponse\<close>, with the manager as the arriving messages leave it. Each
  message first goes to the listeners of its routing key (among them the one above),
  then to the handler of the wait, registered under \<open>'message'\<close>; the first message
  that passes the handler's test resolves the promise, and the caller goes on before any
  further message is handled. If none passes, the timer rejects the promise.
\<close>

fun waitForBalanceResponse ::
  "int \<Rightarrow> (int \<times> json) list \<Rightarrow> BalanceManager \<Rightarrow> (js_exn + json) \<times> BalanceManager" where
  "waitForBalanceResponse rid [] bm =
     (Inl (JsError ''Timeout waiting for balance response''), bm)"
| "waitForBalanceResponse rid (a # rest) bm =
     (let bm1 = deliver a bm
      in if routed_to ''message'' (snd a) \<and> is_response_to rid (snd a) then (Inr (snd a), bm1)
         else waitForBalanceResponse rid rest bm1)"





text \<open>
  \<open>formatBalance\<close> and \<open>parseBalance\<close>. \<open>decimals\<close> is a natural number; up to 22 the
  double \<open>10 ** decimals\<close> is the integer \<open>10 ^ decimals\<close>, which \<open>BigInt\<close> then takes
  over exactly. \<open>/\<close> and \<open>%\<close> on BigInts truncate towards zero.
\<close>

definition formatBalance :: "string \<Rightarrow> nat \<Rightarrow> string" where
  "formatBalance amt decimals =
     (case BigInt amt of
        Inl e \<Rightarrow> ''0''
      | Inr numAmount \<Rightarrow>
          (let divisor = 10 ^ decimals;
               whole = numAmount sdiv divisor;
               remainder = numAmount smod divisor;
               remainderStr = padStart decimals (CHR ''0'') (show_int remainder);
               trimmed = strip_trailing_zeros remainderStr
           in if trimmed = [] then show_int whole
              else show_int whole @ ''.'' @ trimmed))"

definition parseBalance :: "string \<Rightarrow> nat \<Rightarrow> string" where
  "parseBalance formatted decimals =
     (case split_on (CHR ''.'') formatted of
        [] \<Rightarrow> ''0''
      | whole # rest \<Rightarrow>
          (let fraction = (case rest of [] \<Rightarrow> [] | f # fs \<Rightarrow> f);
               paddedFraction = take decimals (padEnd decimals (CHR ''0'') fraction)
           in case bind (BigInt whole) (\<lambda>w.
                     bind (BigInt paddedFraction) (\<lambda>f. Inr (w * 10 ^ decimals + f))) of
                Inl e \<Rightarrow> ''0''
              | Inr rawAmount \<Rightarrow> show_int rawAmount))"

section \<open>Properties of the transport\<close>

subsection \<open>Reconnection backoff\<close>

lemma scheduleReconnect_below:
  assumes "reconnectAttempts st < maxReconnectAttempts st"
  shows "reconnectAttempts (scheduleReconnect st) = Suc (reconnectAttempts st)"
    and "scheduled (scheduleReconnect st) =
           scheduled st @ [min (1000 * 2 ^ Suc (reconnectAttempts st)) 30000]"
    and "maxReconnectAttempts (scheduleReconnect st) = maxReconnectAttempts st"
    and "ws (scheduleReconnect st) = ws st"
  using assms by (simp_all add: scheduleReconnect_def Let_def split: option.splits)

lemma scheduleReconnect_at_cap:
  assumes "maxReconnectAttempts st \<le> reconnectAttempts st"
  shows "scheduleReconnect st = st"
  using assms by (simp add: scheduleReconnect_def)

lemma failed_attempt_eq:
  assumes "ws st = None"
  shows "failed_attempt mk st = scheduleReconnect st"
proof (cases mk)
  case (Inl e)
  with assms show ?thesis
    by (simp add: failed_attempt_def connect_def isConnected_def)
next
  case (Inr s)
  have same: "st\<lparr>ws := None\<rparr> = st"
    using assms by simp
  have "failed_attempt mk st = scheduleReconnect (st\<lparr>ws := None\<rparr>)"
    using Inr assms
    by (simp add: failed_attempt_def connect_def isConnected_def handleClose_def)
  then show ?thesis
    by (simp only: same)
qed

lemma failures_invariant:
  "ws (failures mks) = None \<and> maxReconnectAttempts (failures mks) = 10 \<and>
   reconnectAttempts (failures mks) = min (length mks) 10 \<and>
   scheduled (failures mks) =
     map (\<lambda>n. min (1000 * 2 ^ n) 30000) [1..<Suc (min (length mks) 10)]"
proof (induction mks rule: rev_induct)
  case Nil
  show ?case by (simp add: failures_def newWebSocketManager_def)
next
  case (snoc mk mks)
  let ?st = "failures mks"
  have step: "failures (mks @ [mk]) = scheduleReconnect ?st"
    using snoc by (simp add: failures_def failed_attempt_eq)
  show ?case
  proof (cases "length mks < 10")
    case True
    then have lt: "reconnectAttempts ?st < maxReconnectAttempts ?st"
      using snoc by simp
    from True have m: "min (length mks) 10 = length mks"
      "min (Suc (length mks)) 10 = Suc (length mks)"
      by simp_all
    show ?thesis
      using snoc True unfolding step
      by (simp add: scheduleReconnect_below[OF lt] m)
  next
    case False
    then have "maxReconnectAttempts ?st \<le> reconnectAttempts ?st"
      using snoc by simp
    then have "scheduleReconnect ?st = ?st"
      by (rule scheduleReconnect_at_cap)
    moreover from False have "min (length mks) 10 = 10" "min (Suc (length mks)) 10 = 10"
      by simp_all
    ultimately show ?thesis
      using snoc unfolding step by simp
  qed
qed

lemma backoff_delay_mono:
  "m \<le> n \<Longrightarrow> min (1000 * 2 ^ m) 30000 \<le> min (1000 * 2 ^ n) (30000 :: nat)"
  by (intro min.mono mult_le_mono power_increasing) simp_all

lemma sorted_backoff: "sorted (map (\<lambda>n. min (1000 * 2 ^ n) (30000 :: nat)) [a..<b])"
proof -
  have "sorted_wrt (\<lambda>m n. min (1000 * 2 ^ m) 30000 \<le> min (1000 * 2 ^ n) (30000 :: nat)) [a..<b]"
    by (rule sorted_wrt_mono_rel[where P = "(\<le>)"]) (use backoff_delay_mono in auto)
  then show ?thesis
    by (simp only: sorted_map)
qed

text \<open>
  Claim C4. When every connection attempt of a fresh manager fails, the delay handed to
  \<open>setTimeout\<close> for reconnection attempt \<open>n\<close> (\<open>n = 1, 2, ...\<close>) is
  \<open>min (1000 * 2 ^ n) 30000\<close> milliseconds; the sequence of delays is non-decreasing and
  never exceeds 30000; and however many attempts fail, ten timers are scheduled at most:
  after the tenth attempt no further one is scheduled.
\<close>

theorem reconnect_backoff:
  "scheduled (failures mks) =
     map (\<lambda>n. min (1000 * 2 ^ n) 30000) [1..<Suc (min (length mks) 10)]
   \<and> sorted (scheduled (failures mks))
   \<and> list_all (\<lambda>d. d \<le> 30000) (scheduled (failures mks))
   \<and> length (scheduled (failures mks)) = min (length mks) 10
   \<and> reconnectAttempts (failures mks) = min (length mks) 10"
proof -
  have eq: "scheduled (failures mks) =
      map (\<lambda>n. min (1000 * 2 ^ n) 30000) [1..<Suc (min (length mks) 10)]"
    and att: "reconnectAttempts (failures mks) = min (length mks) 10"
    using failures_invariant[of mks] by simp_all
  have "sorted (scheduled (failures mks))"
    unfolding eq by (rule sorted_backoff)
  moreover have "list_all (\<lambda>d. d \<le> 30000) (scheduled (failures mks))"
    unfolding eq by (simp add: list_all_iff)
  moreover have "length (scheduled (failures mks)) = min (length mks) 10"
    unfolding eq by (simp only: length_map length_upt diff_Suc_1)
  ultimately show ?thesis
    using eq att by blast
qed

theorem reconnect_backoff_witness:
  "scheduled (failures (replicate 12 (Inl NotAnError))) =
     [2000, 4000, 8000, 16000, 30000, 30000, 30000, 30000, 30000, 30000]
   \<and> reconnectAttempts (failures (replicate 12 (Inl NotAnError))) = 10"
  using reconnect_backoff[of "replicate 12 (Inl NotAnError)"]
  by (simp add: upt_rec)

subsection \<open>The outbound queue\<close>

lemma send_while_not_open:
  assumes "\<not> isConnected st"
  shows "messageQueue (send mk m st) = messageQueue st @ [m]"
    and "transmitted (send mk m st) = transmitted st"
  using assms
  by (auto simp: send_def connect_def isConnected_def scheduleReconnect_def Let_def
           split: option.splits sum.splits)

lemma flush_loop_empties: "messageQueue (flush_loop st) = []"
proof (induction st rule: flush_loop.induct)
  case (1 st)
  show ?case
  proof (cases "messageQueue st")
    case Nil
    then show ?thesis by (subst flush_loop.simps) simp
  next
    case (Cons m rest)
    then show ?thesis
      using "1.IH"[OF Cons refl] by (subst flush_loop.simps) (simp add: Let_def)
  qed
qed

lemma flushMessageQueue_empties: "messageQueue (flushMessageQueue st) = []"
  by (simp add: flushMessageQueue_def flush_loop_empties)

lemma flush_loop_stays_open:
  assumes "ws st = Some s" "readyState s = OPEN" "fate s = []"
  shows "transmitted (flush_loop st) = transmitted st @ messageQueue st"
  using assms
proof (induction st rule: flush_loop.induct)
  case (1 st)
  show ?case
  proof (cases "messageQueue st")
    case Nil
    then show ?thesis by (subst flush_loop.simps) simp
  next
    case (Cons m rest)
    let ?st1 = "st\<lparr>messageQueue := rest\<rparr>"
    have c: "isConnected ?st1" using 1(2,3) by (simp add: isConnected_def)
    have w: "ws (ws_send m ?st1) = Some s" using 1(2,4) by (simp add: ws_send_def)
    have "transmitted (flush_loop (ws_send m ?st1)) =
            transmitted (ws_send m ?st1) @ messageQueue (ws_send m ?st1)"
      using "1.IH"[OF Cons refl] c w 1(3,4) by simp
    moreover have "flush_loop st = flush_loop (ws_send m ?st1)"
      using Cons c by (subst flush_loop.simps) (simp add: Let_def)
    ultimately show ?thesis
      using Cons 1(2) by (simp add: ws_send_def)
  qed
qed

text \<open>
  Claim C3, evaluated on the code. Three messages are sent while the socket is still
  connecting; the queue holds them in call order. In the first run the socket opens and
  stops being open after the first frame: \<open>m1\<close> is transmitted, and \<open>m2\<close> and \<open>m3\<close>
  are neither transmitted nor left in the queue. In the second run \<open>connect\<close> is called
  again before the socket has opened, which replaces it by a new connecting socket, and
  then the first socket opens: its \<open>onopen\<close> runs \<open>handleOpen\<close> while the current
  socket is not open; nothing is transmitted and the queue is empty. The loop shifts
  each message off the queue before it tests the connection, and never stops early.
\<close>

theorem flush_drops_unsent:
  "(let s0 = \<lparr>readyState = CONNECTING, fate = [CLOSING]\<rparr>;
        st1 = send (Inr s0) ''m1'' newWebSocketManager;
        st2 = send (Inr s0) ''m2'' st1;
        st3 = send (Inr s0) ''m3'' st2;
        st4 = socket_opened st3;
        st5 = handleOpen (connect (Inr \<lparr>readyState = CONNECTING, fate = []\<rparr>) st3)
    in messageQueue st3 = [''m1'', ''m2'', ''m3'']
       \<and> transmitted st4 = [''m1''] \<and> messageQueue st4 = [] \<and> \<not> isConnected st4
       \<and> transmitted st5 = [] \<and> messageQueue st5 = [])"
  by (simp add: Let_def send_def connect_def isConnected_def newWebSocketManager_def
        socket_opened_def handleOpen_def flushMessageQueue_def ws_send_def flush_loop.simps)

section \<open>Properties of the authentication manager\<close>

text \<open>
  Claim C10. \<open>isAuthenticated\<close> is true exactly when the current socket is open and no
  handshake is in flight; it does not depend on \<open>authPromise\<close>, the only other field of
  the manager; and it is true for a manager that has never run a handshake, as soon as
  the socket is open.
\<close>

theorem isAuthenticated_iff:
  "(isAuthenticated wsManager am \<longleftrightarrow>
      (\<exists>s. ws wsManager = Some s \<and> readyState s = OPEN) \<and> \<not> authInProgress am)
   \<and> isAuthenticated wsManager (am\<lparr>authPromise := p\<rparr>) = isAuthenticated wsManager am
   \<and> isAuthenticated
        (socket_opened (connect (Inr \<lparr>readyState = CONNECTING, fate = []\<rparr>) newWebSocketManager))
        newAuthManager"
  by (auto simp: isAuthenticated_def isConnected_def newAuthManager_def newWebSocketManager_def
        socket_opened_def connect_def handleOpen_def flushMessageQueue_def
      split: option.splits)

subsection \<open>Helper facts about messages and the handshake\<close>



lemma waitForMessage_timeout:
  assumes "\<forall>m \<in> set msgs. \<not> routed_to t m"
  shows "waitForMessage t msgs = Inl (JsError (''Timeout waiting for '' @ t))"
proof -
  have "find (routed_to t) msgs = None"
    using assms by (simp add: find_None_iff)
  then show ?thesis
    by (simp add: waitForMessage_def)
qed


lemma auth_try_reaches_wait:
  assumes "connectedAtStart env \<or> opensInTime env"
    and "createAuthRequestMessage env (authParams_of sessionKey userAddress) = Inr req"
  shows "auth_try env sessionKey userAddress =
           (let t1 = (if connectedAtStart env then [] else [WsConnect]) @ [WsSend req]
            in case waitForMessage ''auth_challenge'' (challengeArrivals env) of
                 Inl e \<Rightarrow> (Inl e, t1)
               | Inr challengeResponse \<Rightarrow>
                   auth_verify env (authParams_of sessionKey userAddress) t1 challengeResponse)"
  using assms by (auto simp: auth_try_def Let_def)

lemma authenticate_fresh:
  assumes "\<not> authInProgress am"
  shows "authenticate env sessionKey userAddress am =
           (Some (fst (performAuthentication env sessionKey userAddress)),
            snd (performAuthentication env sessionKey userAddress),
            am\<lparr>authInProgress := False, authPromise := None\<rparr>)"
  using assms
  by (simp add: authenticate_def authenticate_enter_def authenticate_finally_def
        split: prod.splits)

lemma authenticate_joins:
  assumes "authInProgress am"
  shows "authenticate env sessionKey userAddress am = (authPromise am, [], am)"
  using assms by (simp add: authenticate_def authenticate_enter_def)


subsection \<open>The handshake when no challenge arrives\<close>

text \<open>
  Claim C1. A call of \<open>authenticate\<close> that starts a handshake (none is in flight), whose
  handshake gets as far as waiting for the challenge (the connection is open or opens in
  time, and the SDK builds the request), and during whose wait no message routed to
  \<open>auth_challenge\<close> arrives before the timer fires, resolves with the failure result
  whose error is \<open>Timeout waiting for auth_challenge\<close>, having sent only the request.
  Afterwards \<open>authInProgress\<close> is false and \<open>authPromise\<close> is \<open>null\<close>, so the next call
  runs a handshake of its own and returns that handshake's result; whereas a call made
  while the first handshake was in flight would have been given the first one's result.
\<close>

theorem authenticate_challenge_timeout:
  assumes fresh: "\<not> authInProgress am"
    and conn: "connectedAtStart env \<or> opensInTime env"
    and req: "createAuthRequestMessage env (authParams_of sessionKey userAddress) = Inr req"
    and none: "\<forall>m \<in> set (challengeArrivals env). \<not> routed_to ''auth_challenge'' m"
  shows "authenticate env sessionKey userAddress am =
           (Some \<lparr>success = False, balance = None,
                  error = Some ''Timeout waiting for auth_challenge''\<rparr>,
            (if connectedAtStart env then [] else [WsConnect]) @ [WsSend req],
            am\<lparr>authInProgress := False, authPromise := None\<rparr>)
         \<and> \<not> authInProgress (snd (snd (authenticate env sessionKey userAddress am)))
         \<and> authPromise (snd (snd (authenticate env sessionKey userAddress am))) = None
         \<and> fst (authenticate env2 sessionKey2 userAddress2
                  (snd (snd (authenticate env sessionKey userAddress am)))) =
             Some (fst (performAuthentication env2 sessionKey2 userAddress2))
         \<and> fst (authenticate env2 sessionKey2 userAddress2
                  (snd (snd (authenticate_enter env sessionKey userAddress am)))) =
             Some \<lparr>success = False, balance = None,
                   error = Some ''Timeout waiting for auth_challenge''\<rparr>"
proof -
  let ?r = "\<lparr>success = False, balance = None,
              error = Some ''Timeout waiting for auth_challenge''\<rparr>"
  let ?t = "(if connectedAtStart env then [] else [WsConnect]) @ [WsSend req]"
  have w: "waitForMessage ''auth_challenge'' (challengeArrivals env) =
             Inl (JsError ''Timeout waiting for auth_challenge'')"
    using waitForMessage_timeout[OF none] by simp
  have "auth_try env sessionKey userAddress =
          (Inl (JsError ''Timeout waiting for auth_challenge''), ?t)"
    unfolding auth_try_reaches_wait[OF conn req] by (simp add: w)
  then have p: "performAuthentication env sessionKey userAddress = (?r, ?t)"
    by (simp add: performAuthentication_def)
  have a: "authenticate env sessionKey userAddress am =
           (Some ?r, ?t, am\<lparr>authInProgress := False, authPromise := None\<rparr>)"
    unfolding authenticate_fresh[OF fresh] p by simp
  have n: "\<not> authInProgress (am\<lparr>authInProgress := False, authPromise := None\<rparr>)"
    by simp
  have mid: "authenticate_enter env sessionKey userAddress am =
               (Some ?r, ?t, am\<lparr>authInProgress := True, authPromise := Some ?r\<rparr>)"
    using fresh by (simp add: authenticate_enter_def p)
  have j: "authInProgress (am\<lparr>authInProgress := True, authPromise := Some ?r\<rparr>)"
    by simp
  show ?thesis
    unfolding a mid by (simp add: authenticate_fresh[OF n] authenticate_joins[OF j])
qed

theorem authenticate_challenge_timeout_witness:
  "fst (authenticate
      \<lparr>connectedAtStart = False, opensInTime = True,
          createAuthRequestMessage = (\<lambda>p. Inr ''auth_request''),
          challengeArrivals = [JObj [(''res'', JArr [JNum 7, JStr ''balance_update'', JObj []])], JNull],
          createAuthVerifyMessage = (\<lambda>p c. Inr ''auth_verify''),
          successArrivals = []\<rparr>
     \<lparr>privateKey = ''0xaa'', publicKey = ''0xbb'', expiresAt = 5000, allowances = []\<rparr>
     ''0xcc'' newAuthManager) = Some \<lparr>success = False, balance = None,
                  error = Some ''Timeout waiting for auth_challenge''\<rparr>"
  using authenticate_challenge_timeout[of newAuthManager
      "\<lparr>connectedAtStart = False, opensInTime = True,
          createAuthRequestMessage = (\<lambda>p. Inr ''auth_request''),
          challengeArrivals = [JObj [(''res'', JArr [JNum 7, JStr ''balance_update'', JObj []])], JNull],
          createAuthVerifyMessage = (\<lambda>p c. Inr ''auth_verify''),
          successArrivals = []\<rparr>"
     "\<lparr>privateKey = ''0xaa'', publicKey = ''0xbb'', expiresAt = 5000, allowances = []\<rparr>"
     "''0xcc''" "''auth_request''"]
  by (simp add: newAuthManager_def routed_to_def getMessageType_def bind_def)

subsection \<open>The handshake when the challenge is missing\<close>




section \<open>Properties of the balance manager\<close>




lemma wait_no_push:
  assumes "\<forall>x \<in> set msgs. \<not> routed_to ''balance_update'' (snd x)"
  shows "snd (waitForBalanceResponse rid msgs bm) = bm"
  using assms by (induction msgs arbitrary: bm) (simp_all add: Let_def deliver_def)












subsection \<open>Decimal strings\<close>

lemma digit_char_facts:
  assumes "n < 10"
  shows "is_digit (digit_char n)" and "digit_val (digit_char n) = n"
    and "digit_char n \<noteq> CHR ''.''" and "\<not> is_ws (digit_char n)"
proof -
  from assms consider "n = 0" | "n = 1" | "n = 2" | "n = 3" | "n = 4"
    | "n = 5" | "n = 6" | "n = 7" | "n = 8" | "n = 9"
    by atomize_elim presburger
  then have "is_digit (digit_char n) \<and> digit_val (digit_char n) = n
      \<and> digit_char n \<noteq> CHR ''.'' \<and> \<not> is_ws (digit_char n)"
    by cases (simp_all add: digit_char_def is_digit_in_def digit_val_def digit_table_def is_ws_def)
  then show "is_digit (digit_char n)" and "digit_val (digit_char n) = n"
    and "digit_char n \<noteq> CHR ''.''" and "\<not> is_ws (digit_char n)"
    by simp_all
qed

lemma is_digit_not_special:
  assumes "is_digit c"
  shows "c \<noteq> CHR ''.''" and "\<not> is_ws c"
  using assms
  by (auto simp: is_digit_in_def digit_table_def is_ws_def split: if_splits)

lemma radix_val_snoc: "radix_val r (xs @ [c]) = r * radix_val r xs + digit_val c"
  by (simp add: radix_val_def)

lemma radix_val_Nil: "radix_val r [] = 0"
  by (simp add: radix_val_def)

lemma radix_val_append:
  "radix_val r (xs @ ys) = radix_val r xs * r ^ length ys + radix_val r ys"
proof (induction ys rule: rev_induct)
  case Nil
  show ?case by (simp add: radix_val_Nil)
next
  case (snoc y ys)
  have "radix_val r (xs @ ys @ [y]) = r * radix_val r (xs @ ys) + digit_val y"
    using radix_val_snoc[of r "xs @ ys" y] by simp
  then show ?case
    by (simp add: snoc radix_val_snoc algebra_simps)
qed

lemma digit_val_zero: "digit_val (CHR ''0'') = 0"
  by (simp add: digit_val_def digit_table_def)

lemma radix_val_zeros: "radix_val r (replicate k (CHR ''0'')) = 0"
proof (induction k)
  case 0
  show ?case by (simp add: radix_val_Nil)
next
  case (Suc k)
  have "replicate (Suc k) (CHR ''0'') = replicate k (CHR ''0'') @ [CHR ''0'']"
    by (simp add: replicate_append_same)
  then show ?case
    by (simp add: radix_val_snoc Suc digit_val_zero del: replicate.simps)
qed

lemma show_nat_digits: "list_all is_digit (show_nat n)"
proof (induction n rule: show_nat.induct)
  case (1 n)
  show ?case
  proof (cases "n < 10")
    case True
    then show ?thesis by (subst show_nat.simps) (simp add: digit_char_facts)
  next
    case False
    then show ?thesis
      using 1 by (subst show_nat.simps) (simp add: digit_char_facts)
  qed
qed

lemma show_nat_nonempty: "show_nat n \<noteq> []"
  by (subst show_nat.simps) simp

lemma dec_val_show_nat: "dec_val (show_nat n) = n"
proof (induction n rule: show_nat.induct)
  case (1 n)
  show ?case
  proof (cases "n < 10")
    case True
    then show ?thesis
      by (subst show_nat.simps) (simp add: radix_val_def digit_char_facts)
  next
    case False
    then show ?thesis
      using 1 by (subst show_nat.simps) (simp add: radix_val_snoc digit_char_facts)
  qed
qed

lemma length_show_nat:
  assumes "n < 10 ^ d" "0 < d"
  shows "length (show_nat n) \<le> d"
  using assms
proof (induction n arbitrary: d rule: show_nat.induct)
  case (1 n)
  show ?case
  proof (cases "n < 10")
    case True
    then show ?thesis using 1(3) by (subst show_nat.simps) simp
  next
    case False
    obtain d' where d: "d = Suc d'" using 1(3) by (cases d) auto
    have "d' \<noteq> 0" using False 1(2) d by (cases d') auto
    moreover have "n div 10 < 10 ^ d'"
      using 1(2) d by (simp add: less_mult_imp_div_less mult.commute)
    ultimately have "length (show_nat (n div 10)) \<le> d'"
      using 1(1)[OF False, of d'] by simp
    then show ?thesis
      using False d by (subst show_nat.simps) simp
  qed
qed

lemma trim_digits:
  assumes "list_all is_digit s"
  shows "trim s = s"
proof (cases s rule: rev_cases)
  case Nil
  then show ?thesis by (simp add: trim_def)
next
  case (snoc ys y)
  have h: "\<not> is_ws (hd s)" "\<not> is_ws y"
    using assms snoc by (cases ys; simp add: is_digit_not_special)+
  have "s \<noteq> []" using snoc by simp
  then have "dropWhile is_ws s = s"
    using h(1) by (cases s) simp_all
  moreover have "dropWhile is_ws (rev s) = rev s"
    using h(2) snoc by simp
  ultimately show ?thesis
    by (simp add: trim_def)
qed

lemma BigInt_digits:
  assumes "list_all is_digit s"
  shows "BigInt s = Inr (int (dec_val s))"
  using assms
  by (simp add: BigInt_def trim_digits string_to_bigint_def radix_val_Nil)

lemma show_int_nat: "show_int (int n) = show_nat n"
  by (simp add: show_int_def)

lemma split_on_none:
  assumes "sep \<notin> set s"
  shows "split_on sep s = [s]"
  using assms by (induction s) auto

lemma split_on_first:
  assumes "sep \<notin> set a"
  shows "split_on sep (a @ sep # b) = a # split_on sep b"
  using assms by (induction a) auto

lemma digits_no_dot:
  assumes "list_all is_digit s"
  shows "CHR ''.'' \<notin> set s"
  using assms is_digit_not_special(1) by (auto simp: list_all_iff)

lemma strip_trailing_zeros_decomp:
  "\<exists>k. s = strip_trailing_zeros s @ replicate k (CHR ''0'')"
proof -
  have "rev s = takeWhile (\<lambda>c. c = CHR ''0'') (rev s) @ dropWhile (\<lambda>c. c = CHR ''0'') (rev s)"
    by simp
  moreover have "takeWhile (\<lambda>c. c = CHR ''0'') (rev s)
      = replicate (length (takeWhile (\<lambda>c. c = CHR ''0'') (rev s))) (CHR ''0'')"
    by (intro replicate_length_same[symmetric]) (auto dest: set_takeWhileD)
  ultimately have "rev s = replicate (length (takeWhile (\<lambda>c. c = CHR ''0'') (rev s))) (CHR ''0'')
      @ dropWhile (\<lambda>c. c = CHR ''0'') (rev s)"
    by simp
  then have "s = rev (dropWhile (\<lambda>c. c = CHR ''0'') (rev s))
      @ replicate (length (takeWhile (\<lambda>c. c = CHR ''0'') (rev s))) (CHR ''0'')"
    by (metis rev_append rev_replicate rev_rev_ident)
  then show ?thesis
    unfolding strip_trailing_zeros_def by blast
qed

lemma sdiv_smod_nat:
  "int x sdiv int y = int (x div y)" "int x smod int y = int (x mod y)"
  by (simp_all add: signed_divide_int_def signed_modulo_int_def sgn_if zdiv_int zmod_int)

lemma sdiv_smod_pow10:
  "int x sdiv 10 ^ d = int (x div 10 ^ d)" "int x smod 10 ^ d = int (x mod 10 ^ d)"
  using sdiv_smod_nat[of x "10 ^ d"] by simp_all


lemma formatBalance_show_nat:
  "formatBalance (show_nat x) d =
     (let trimmed = strip_trailing_zeros (padStart d (CHR ''0'') (show_nat (x mod 10 ^ d)))
      in if trimmed = [] then show_nat (x div 10 ^ d)
         else show_nat (x div 10 ^ d) @ ''.'' @ trimmed)"
proof -
  have "BigInt (show_nat x) = Inr (int x)"
    by (simp add: BigInt_digits show_nat_digits dec_val_show_nat)
  then show ?thesis
    unfolding formatBalance_def Let_def
    by (simp only: sum.case sdiv_smod_pow10 show_int_nat)
qed

lemma remainderStr_facts:
  assumes "r < 10 ^ d"
  defines "rs \<equiv> padStart d (CHR ''0'') (show_nat r)"
  shows "list_all is_digit rs" and "dec_val rs = r" and "0 < d \<Longrightarrow> length rs = d"
proof -
  have z: "is_digit (CHR ''0'')"
    by (simp add: is_digit_in_def digit_table_def)
  show "list_all is_digit rs"
    unfolding rs_def padStart_def using show_nat_digits[of r] z by (auto simp: list_all_iff)
  show "dec_val rs = r"
    unfolding rs_def padStart_def
    by (simp add: radix_val_append radix_val_zeros dec_val_show_nat)
  show "length rs = d" if "0 < d"
    unfolding rs_def padStart_def using length_show_nat[OF assms(1) that] by simp
qed

subsection \<open>Formatting and parsing balances\<close>

text \<open>
  Claim C5. For every non-negative integer \<open>x\<close>, given as its decimal string, and every
  \<open>decimals\<close> from 0 to 18, parsing the formatted balance gives back the decimal string
  of \<open>x\<close>. Both functions compute on integers (BigInt) only.
\<close>

theorem balance_round_trip:
  assumes "d \<le> 18"
  shows "parseBalance (formatBalance (show_nat x) d) d = show_nat x"
proof -
  define w where "w = x div 10 ^ d"
  define r where "r = x mod 10 ^ d"
  define rs where "rs = padStart d (CHR ''0'') (show_nat r)"
  define t where "t = strip_trailing_zeros rs"
  have rlt: "r < 10 ^ d" by (simp add: r_def)
  have x: "x = w * 10 ^ d + r" unfolding w_def r_def by (rule div_mult_mod_eq[symmetric])
  have rs_digits: "list_all is_digit rs" and rs_val: "dec_val rs = r"
    and rs_len: "0 < d \<Longrightarrow> length rs = d"
    using remainderStr_facts[OF rlt] unfolding rs_def by simp_all
  obtain k where k: "rs = t @ replicate k (CHR ''0'')"
    using strip_trailing_zeros_decomp[of rs] unfolding t_def by blast
  have t_digits: "list_all is_digit t"
    using rs_digits k by (metis list_all_append)
  have w_digits: "list_all is_digit (show_nat w)" by (rule show_nat_digits)
  have fmt: "formatBalance (show_nat x) d =
      (if t = [] then show_nat w else show_nat w @ ''.'' @ t)"
    unfolding formatBalance_show_nat by (simp add: Let_def t_def rs_def r_def w_def)
  have zeros_digits: "list_all is_digit (replicate n (CHR ''0''))" for n
    by (simp add: list_all_iff is_digit_in_def digit_table_def)
  show ?thesis
  proof (cases "t = []")
    case True
    have "r = 0"
      using rs_val k True by (simp add: radix_val_zeros)
    then have xw: "x = w * 10 ^ d" using x by simp
    have sp: "split_on (CHR ''.'') (show_nat w) = [show_nat w]"
      by (rule split_on_none) (rule digits_no_dot[OF w_digits])
    have "parseBalance (show_nat w) d = show_int (int w * 10 ^ d + 0)"
      unfolding parseBalance_def sp
      by (simp add: Let_def padEnd_def BigInt_digits[OF w_digits] BigInt_digits[OF zeros_digits]
            radix_val_zeros dec_val_show_nat bind_def)
    also have "\<dots> = show_nat x"
      using show_int_nat[of "w * 10 ^ d"] xw by simp
    finally show ?thesis
      using True fmt by simp
  next
    case False
    have dpos: "0 < d"
    proof (rule ccontr)
      assume "\<not> 0 < d"
      then have "d = 0" by simp
      then have "r = 0" using rlt by simp
      then have "rs = show_nat 0" using \<open>d = 0\<close> by (simp add: rs_def padStart_def)
      then have "rs = ''0''" by (subst (asm) show_nat.simps) (simp add: digit_char_def)
      then have "t = []" by (simp add: t_def strip_trailing_zeros_def)
      with False show False by simp
    qed
    have len: "length t + k = d"
      using rs_len[OF dpos] k by (metis length_append length_replicate)
    have pad: "take d (padEnd d (CHR ''0'') t) = rs"
    proof -
      have "d - length t = k" using len by simp
      then have "padEnd d (CHR ''0'') t = rs"
        using k by (simp add: padEnd_def)
      then show ?thesis using rs_len[OF dpos] by simp
    qed
    have sp: "split_on (CHR ''.'') (show_nat w @ CHR ''.'' # t) = [show_nat w, t]"
      using split_on_first[OF digits_no_dot[OF w_digits], of t]
        split_on_none[OF digits_no_dot[OF t_digits]] by simp
    have "parseBalance (show_nat w @ ''.'' @ t) d = show_int (int w * 10 ^ d + int r)"
      unfolding parseBalance_def
      by (simp add: sp Let_def pad BigInt_digits[OF w_digits] BigInt_digits[OF rs_digits]
            rs_val dec_val_show_nat bind_def)
    also have "\<dots> = show_nat x"
      using show_int_nat[of "w * 10 ^ d + r"] x by simp
    finally show ?thesis
      using False fmt by simp
  qed
qed

theorem balance_round_trip_witness:
  "(6::nat) \<le> 18 \<and> formatBalance ''1234500'' 6 = ''1.2345''
     \<and> parseBalance ''1.2345'' 6 = ''1234500''"
proof -
  have s: "show_nat 1234500 = ''1234500''"
    by (simp add: show_nat.simps digit_char_def)
  have f: "formatBalance ''1234500'' 6 = ''1.2345''"
    unfolding formatBalance_show_nat[of 1234500 6, unfolded s]
    by (simp add: show_nat.simps digit_char_def padStart_def strip_trailing_zeros_def Let_def)
  show ?thesis
    using balance_round_trip[of 6 1234500] unfolding s f by (simp add: f)
qed

section \<open>Properties of the session key manager\<close>

subsection \<open>\<open>parseFloat\<close> on decimal integers\<close>

lemma floorlog2_unique:
  assumes "2 ^ k \<le> n" "n < 2 ^ Suc k"
  shows "floorlog 2 n = Suc k"
proof -
  have "floorlog 2 n \<le> Suc k"
    using assms(2) by (intro floorlog_leI) simp_all
  moreover have "Suc k \<le> floorlog 2 n"
    using assms(1) by (intro floorlog_ge_SucI) simp_all
  ultimately show ?thesis by simp
qed

lemma floor_log2_of_nat:
  assumes "2 ^ k \<le> n" "n < 2 ^ Suc k"
  shows "floor_log2 (of_nat n) = int k"
proof -
  have f1: "floorlog 2 (Suc 0) = 1"
    using floorlog2_unique[of 0 "Suc 0"] by simp
  have "pow2 (int k) \<le> of_nat n"
  proof -
    have "(2::rat) ^ k = of_nat (2 ^ k)" by simp
    also have "\<dots> \<le> of_nat n" using assms(1) by (simp only: of_nat_le_iff)
    finally show ?thesis by (simp add: pow2_def)
  qed
  then show ?thesis
    by (simp add: floor_log2_def floorlog2_unique[OF assms] f1)
qed

lemma round_half_even_of_int: "round_half_even (of_int k) = k"
  by (simp add: round_half_even_def)

lemma to_double_exact:
  assumes "n < 2 ^ 53"
  shows "to_double (of_nat n) = Finite (of_nat n)"
proof (cases "n = 0")
  case True
  then show ?thesis by (simp add: to_double_def)
next
  case False
  define k where "k = floorlog 2 n - 1"
  have fl: "0 < floorlog 2 n" using False floorlog_eq_zero_iff[of 2 n] by auto
  have b: "2 ^ k \<le> n" "n < 2 ^ Suc k"
    using floorlog_bounds[of n 2] False fl by (simp_all add: k_def)
  have k52: "k \<le> 52"
  proof (rule ccontr)
    assume "\<not> k \<le> 52"
    then have "53 \<le> k" by simp
    then have "(2::nat) ^ 53 \<le> 2 ^ k" by (intro power_increasing) simp_all
    with b(1) assms show False by simp
  qed
  have e: "floor_log2 (of_nat n) = int k" by (rule floor_log2_of_nat[OF b])
  have p: "max (int k - 52) (- 1074) = - int (52 - k)" using k52 by simp
  have pw: "pow2 (- int (52 - k)) = 1 / 2 ^ (52 - k)"
  proof -
    have "nat (int (52 - k)) = 52 - k" by (rule nat_int)
    then show ?thesis
      unfolding pow2_def by (cases "52 - k = 0") (simp_all del: of_nat_diff)
  qed
  have q: "rat_of_nat n / (1 / 2 ^ (52 - k)) = of_int (int n * 2 ^ (52 - k))"
    by simp
  have v: "of_int (round_half_even (rat_of_nat n / (1 / 2 ^ (52 - k)))) * (1 / 2 ^ (52 - k)) = rat_of_nat n"
    unfolding q round_half_even_of_int by simp
  have small: "\<not> pow2 1024 \<le> rat_of_nat n"
  proof -
    have "rat_of_nat n < of_nat (2 ^ 53)" using assms by (simp only: of_nat_less_iff)
    also have "\<dots> \<le> 2 ^ 1024" by simp
    finally show ?thesis by (simp add: pow2_def)
  qed
  show ?thesis
    using False small unfolding to_double_def e p pw Let_def v by simp
qed

lemma to_double_2_53_plus_1:
  "to_double 9007199254740993 = Finite 9007199254740992"
proof -
  have e: "floor_log2 (of_nat 9007199254740993) = int 53"
    by (rule floor_log2_of_nat) simp_all
  have fl: "\<lfloor>(9007199254740993::rat) / 2\<rfloor> = 4503599627370496"
    using floor_divide_of_int_eq[of 9007199254740993 2, where ?'a = rat] by simp
  have r: "round_half_even (9007199254740993 / 2) = 4503599627370496"
    by (simp add: round_half_even_def Let_def fl)
  show ?thesis
    using e by (simp add: to_double_def Let_def pow2_def r)
qed


lemma to_double_2_53:
  "to_double 9007199254740992 = Finite 9007199254740992"
proof -
  have e: "floor_log2 (of_nat 9007199254740992) = int 53"
    by (rule floor_log2_of_nat) simp_all
  have r: "round_half_even 4503599627370496 = 4503599627370496"
    using round_half_even_of_int[of 4503599627370496] by simp
  show ?thesis
    using e by (simp add: to_double_def Let_def pow2_def r)
qed

lemma is_digit_not_sign:
  assumes "is_digit c"
  shows "c \<noteq> CHR ''-''" and "c \<noteq> CHR ''+''" and "c \<noteq> CHR ''I''" and "\<not> is_ws c"
  using assms
  by (auto simp: is_digit_in_def digit_table_def is_ws_def split: if_splits)

lemma parseFloat_digits:
  assumes "s \<noteq> []" "list_all is_digit s"
  shows "parseFloat s = to_double (of_nat (dec_val s))"
proof -
  obtain c t where s: "s = c # t" using assms(1) by (cases s) auto
  have c: "is_digit c" using assms(2) s by simp
  have tr: "trim_start s = c # t"
    using is_digit_not_sign(4)[OF c] by (simp add: trim_start_def s)
  have tw: "takeWhile is_digit (c # t) = c # t" "dropWhile is_digit (c # t) = []"
    using assms(2) s by (simp_all add: list_all_iff)
  have "unsigned_literal (c # t) = to_double (of_nat (dec_val (c # t)))"
    unfolding unsigned_literal_def Let_def tw using is_digit_not_sign(3)[OF c]
    by (simp add: exponent_part_def pow10_def)
  then show ?thesis
    unfolding parseFloat_def tr using is_digit_not_sign(1,2)[OF c] by (simp add: s)
qed

lemma parseFloat_small_integer:
  assumes "s \<noteq> []" "list_all is_digit s" "dec_val s < 2 ^ 53"
  shows "parseFloat s = Finite (of_nat (dec_val s))"
  using parseFloat_digits[OF assms(1,2)] to_double_exact[OF assms(3)] by simp

lemma needsRotation_unfold:
  "needsRotation now k spentAmount a \<longleftrightarrow>
     now > expiresAt k
     \<or> (\<exists>al. find (\<lambda>x. asset x = a) (allowances k) = Some al
             \<and> js_ge (parseFloat spentAmount) (parseFloat (amount al)))"
  by (auto simp: needsRotation_def isExpired_def Let_def split: option.splits)

lemma dec_val_examples:
  "dec_val ''9007199254740993'' = 9007199254740993"
  "dec_val ''9007199254740992'' = 9007199254740992"
  "dec_val ''100'' = 100" "dec_val ''99'' = 99"
  by (simp_all add: radix_val_def digit_val_def digit_table_def)

subsection \<open>Rotation\<close>

text \<open>
  Claim C6, as amended. \<open>needsRotation\<close> is true exactly when \<open>now > expiresAt\<close>, or
  the key's allowances have an entry for the asset and \<open>parseFloat(spentAmount) >=
  parseFloat(amount)\<close> holds between the two doubles (which is false when either is NaN).
  For two unsigned decimal integers below \<open>2^53\<close> that comparison is the comparison of
  the integers. When the key is unexpired and has no entry for the asset, the result is
  false.
\<close>

theorem needsRotation_iff:
  "(needsRotation now k spentAmount a \<longleftrightarrow>
      now > expiresAt k
      \<or> (\<exists>al. find (\<lambda>x. asset x = a) (allowances k) = Some al
              \<and> js_ge (parseFloat spentAmount) (parseFloat (amount al))))
   \<and> (s \<noteq> [] \<and> list_all is_digit s \<and> dec_val s < 2 ^ 53
       \<and> t \<noteq> [] \<and> list_all is_digit t \<and> dec_val t < 2 ^ 53
       \<longrightarrow> (js_ge (parseFloat s) (parseFloat t) \<longleftrightarrow> dec_val t \<le> dec_val s))
   \<and> (\<not> now > expiresAt k \<and> find (\<lambda>x. asset x = a) (allowances k) = None
       \<longrightarrow> \<not> needsRotation now k spentAmount a)"
proof (intro conjI impI)
  show "needsRotation now k spentAmount a \<longleftrightarrow>
      now > expiresAt k
      \<or> (\<exists>al. find (\<lambda>x. asset x = a) (allowances k) = Some al
              \<and> js_ge (parseFloat spentAmount) (parseFloat (amount al)))"
    by (rule needsRotation_unfold)
next
  assume h: "s \<noteq> [] \<and> list_all is_digit s \<and> dec_val s < 2 ^ 53
       \<and> t \<noteq> [] \<and> list_all is_digit t \<and> dec_val t < 2 ^ 53"
  then have "parseFloat s = Finite (of_nat (dec_val s))" "parseFloat t = Finite (of_nat (dec_val t))"
    using parseFloat_small_integer by blast+
  then show "js_ge (parseFloat s) (parseFloat t) \<longleftrightarrow> dec_val t \<le> dec_val s"
    by (simp add: js_ge_def)
next
  assume "\<not> now > expiresAt k \<and> find (\<lambda>x. asset x = a) (allowances k) = None"
  then show "\<not> needsRotation now k spentAmount a"
    by (simp add: needsRotation_unfold)
qed

theorem needsRotation_iff_witness:
  "needsRotation 0 \<lparr>privateKey = ''0xaa'', publicKey = ''0xbb'', expiresAt = 1000,
        allowances = [\<lparr>asset = ''ytest.usd'', amount = ''100''\<rparr>]\<rparr> ''100'' ''ytest.usd''
   \<and> \<not> needsRotation 0 \<lparr>privateKey = ''0xaa'', publicKey = ''0xbb'', expiresAt = 1000,
        allowances = [\<lparr>asset = ''ytest.usd'', amount = ''100''\<rparr>]\<rparr> ''99'' ''ytest.usd''
   \<and> \<not> needsRotation 0 \<lparr>privateKey = ''0xaa'', publicKey = ''0xbb'', expiresAt = 1000,
        allowances = [\<lparr>asset = ''ytest.usd'', amount = ''100''\<rparr>]\<rparr> ''100'' ''usdc''"
  using needsRotation_iff[of 0 "\<lparr>privateKey = ''0xaa'', publicKey = ''0xbb'', expiresAt = 1000,
        allowances = [\<lparr>asset = ''ytest.usd'', amount = ''100''\<rparr>]\<rparr>" "''100''" "''ytest.usd''"
        "''100''" "''100''"]
    needsRotation_iff[of 0 "\<lparr>privateKey = ''0xaa'', publicKey = ''0xbb'', expiresAt = 1000,
        allowances = [\<lparr>asset = ''ytest.usd'', amount = ''100''\<rparr>]\<rparr>" "''99''" "''ytest.usd''"
        "''99''" "''100''"]
    needsRotation_iff[of 0 "\<lparr>privateKey = ''0xaa'', publicKey = ''0xbb'', expiresAt = 1000,
        allowances = [\<lparr>asset = ''ytest.usd'', amount = ''100''\<rparr>]\<rparr>" "''100''" "''usdc''"
        "''100''" "''100''"]
  by (simp add: dec_val_examples is_digit_in_def digit_table_def)

text \<open>
  Claim C6 as stated fails: the amounts are compared as doubles, not as decimal
  magnitudes. The allowance \<open>9007199254740993\<close> (\<open>2^53 + 1\<close>) is read as the double
  \<open>2^53\<close>, so an unexpired key whose spent amount is \<open>9007199254740992\<close>, one below the
  allowance, is reported as needing rotation.
\<close>

theorem needsRotation_decimal_counterexample:
  "needsRotation 0 \<lparr>privateKey = ''0xaa'', publicKey = ''0xbb'', expiresAt = 1000,
        allowances = [\<lparr>asset = ''ytest.usd'', amount = ''9007199254740993''\<rparr>]\<rparr>
      ''9007199254740992'' ''ytest.usd''
   \<and> \<not> (0 :: int) > 1000
   \<and> dec_val ''9007199254740992'' < dec_val ''9007199254740993''"
proof -
  have a: "parseFloat ''9007199254740993'' = Finite 9007199254740992"
    using parseFloat_digits[of "''9007199254740993''"] to_double_2_53_plus_1
    by (simp add: dec_val_examples is_digit_in_def digit_table_def)
  have b: "parseFloat ''9007199254740992'' = Finite 9007199254740992"
    using parseFloat_digits[of "''9007199254740992''"] to_double_2_53
    by (simp add: dec_val_examples is_digit_in_def digit_table_def)
  show ?thesis
    by (simp add: needsRotation_unfold a b js_ge_def dec_val_examples)
qed

text \<open>
  Claim C9. Called without a key, \<open>rotateIfNeeded\<close> (when the write to storage
  succeeds) returns a new key with the generated private key and its address, expiring
  one hour after the clock reading, with the allowances \<open>[{asset: 'ytest.usd', amount:
  '100'}]\<close>, and the storage then holds that key encrypted under the password, with its
  expiry. Called with a key that needs no rotation, it returns that key and leaves the
  storage as it was.
\<close>

theorem rotateIfNeeded_cases:
  "(setError env = None \<longrightarrow>
      rotateIfNeeded env now now' None spentAmount a password stg =
        Inr (\<lparr>privateKey = generatePrivateKey env,
              publicKey = addressOf env (generatePrivateKey env),
              expiresAt = now' + 3600000,
              allowances = [\<lparr>asset = ''ytest.usd'', amount = ''100''\<rparr>]\<rparr>,
             stg\<lparr>encryptedSessionKey :=
                   Some (encrypt env
                     (stringify env
                        \<lparr>privateKey = generatePrivateKey env,
                         publicKey = addressOf env (generatePrivateKey env),
                         expiresAt = now' + 3600000,
                         allowances = [\<lparr>asset = ''ytest.usd'', amount = ''100''\<rparr>]\<rparr>)
                     password),
                 sessionKeyExpiry := Some (now' + 3600000)\<rparr>))
   \<and> (\<not> needsRotation now k spentAmount a \<longrightarrow>
      rotateIfNeeded env now now' (Some k) spentAmount a password stg = Inr (k, stg))"
  by (simp add: rotateIfNeeded_def rotate_to_def generateSessionKey_def saveToStorage_def
        default_allowances_def SESSION_KEY_DURATION_def Let_def)

theorem rotateIfNeeded_cases_witness:
  "rotateIfNeeded
     \<lparr>encrypt = (\<lambda>d p. p @ d),
      decrypt = (\<lambda>c p. if take (length p) c = p then Inr (drop (length p) c)
                        else Inl (JsError ''Malformed UTF-8 data'')),
      stringify = (\<lambda>k. ''key''),
      parse = (\<lambda>t. if t = ''key''
                      then Inr \<lparr>privateKey = ''0xaa'', publicKey = ''0xbb'', expiresAt = 5000,
                                allowances = [\<lparr>asset = ''ytest.usd'', amount = ''100''\<rparr>]\<rparr>
                      else Inl (JsError ''Unexpected token'')),
      generatePrivateKey = ''0xaa'', addressOf = (\<lambda>k. ''0xbb''),
      getError = None, setError = None, removeError = None\<rparr>
     0 10 None ''99'' ''ytest.usd'' ''right''
     \<lparr>encryptedSessionKey = None, sessionKeyExpiry = None\<rparr>
   = Inr (\<lparr>privateKey = ''0xaa'', publicKey = ''0xbb'', expiresAt = 3600010,
           allowances = [\<lparr>asset = ''ytest.usd'', amount = ''100''\<rparr>]\<rparr>,
          \<lparr>encryptedSessionKey = Some ''rightkey'', sessionKeyExpiry = Some 3600010\<rparr>)
   \<and> rotateIfNeeded
     \<lparr>encrypt = (\<lambda>d p. p @ d),
      decrypt = (\<lambda>c p. if take (length p) c = p then Inr (drop (length p) c)
                        else Inl (JsError ''Malformed UTF-8 data'')),
      stringify = (\<lambda>k. ''key''),
      parse = (\<lambda>t. if t = ''key''
                      then Inr \<lparr>privateKey = ''0xaa'', publicKey = ''0xbb'', expiresAt = 5000,
                                allowances = [\<lparr>asset = ''ytest.usd'', amount = ''100''\<rparr>]\<rparr>
                      else Inl (JsError ''Unexpected token'')),
      generatePrivateKey = ''0xaa'', addressOf = (\<lambda>k. ''0xbb''),
      getError = None, setError = None, removeError = None\<rparr>
     0 10 (Some \<lparr>privateKey = ''0xaa'', publicKey = ''0xbb'', expiresAt = 5000,
        allowances = [\<lparr>asset = ''ytest.usd'', amount = ''100''\<rparr>]\<rparr>) ''99'' ''ytest.usd'' ''right''
     \<lparr>encryptedSessionKey = None, sessionKeyExpiry = None\<rparr>
   = Inr (\<lparr>privateKey = ''0xaa'', publicKey = ''0xbb'', expiresAt = 5000,
        allowances = [\<lparr>asset = ''ytest.usd'', amount = ''100''\<rparr>]\<rparr>,
          \<lparr>encryptedSessionKey = None, sessionKeyExpiry = None\<rparr>)"
proof -
  have "parseFloat ''99'' = Finite 99" "parseFloat ''100'' = Finite 100"
    using parseFloat_small_integer[of "''99''"] parseFloat_small_integer[of "''100''"]
    by (simp_all add: dec_val_examples is_digit_in_def digit_table_def)
  then have n: "\<not> needsRotation 0 \<lparr>privateKey = ''0xaa'', publicKey = ''0xbb'', expiresAt = 5000,
        allowances = [\<lparr>asset = ''ytest.usd'', amount = ''100''\<rparr>]\<rparr> ''99'' ''ytest.usd''"
    by (simp add: needsRotation_unfold js_ge_def)
  show ?thesis
    using n rotateIfNeeded_cases[of
      "\<lparr>encrypt = (\<lambda>d p. p @ d),
      decrypt = (\<lambda>c p. if take (length p) c = p then Inr (drop (length p) c)
                        else Inl (JsError ''Malformed UTF-8 data'')),
      stringify = (\<lambda>k. ''key''),
      parse = (\<lambda>t. if t = ''key''
                      then Inr \<lparr>privateKey = ''0xaa'', publicKey = ''0xbb'', expiresAt = 5000,
                                allowances = [\<lparr>asset = ''ytest.usd'', amount = ''100''\<rparr>]\<rparr>
                      else Inl (JsError ''Unexpected token'')),
      generatePrivateKey = ''0xaa'', addressOf = (\<lambda>k. ''0xbb''),
      getError = None, setError = None, removeError = None\<rparr>"
      0 10 "''99''" "''ytest.usd''" "''right''"
      "\<lparr>encryptedSessionKey = None, sessionKeyExpiry = None\<rparr>"
      "\<lparr>privateKey = ''0xaa'', publicKey = ''0xbb'', expiresAt = 5000,
        allowances = [\<lparr>asset = ''ytest.usd'', amount = ''100''\<rparr>]\<rparr>"]
    by simp
qed

subsection \<open>Loading a stored key\<close>

text \<open>
  Claim C7, as amended. When decryption fails, because the cipher throws or because the
  text it yields does not parse, \<open>loadFromStorage\<close> returns \<open>null\<close> and leaves the
  storage as it was: the very result it returns when no ciphertext is stored.
\<close>

theorem load_failure_same_as_no_key:
  assumes "decrypt env encrypted password = Inl e
           \<or> (\<exists>text. decrypt env encrypted password = Inr text \<and> parse env text = Inl e)"
  shows "loadFromStorage env now password (stg\<lparr>encryptedSessionKey := Some encrypted\<rparr>) =
           (None, stg\<lparr>encryptedSessionKey := Some encrypted\<rparr>)
         \<and> loadFromStorage env now password (stg\<lparr>encryptedSessionKey := None\<rparr>) =
           (None, stg\<lparr>encryptedSessionKey := None\<rparr>)"
  using assms
  by (auto simp: loadFromStorage_def bind_def split: option.splits)

theorem load_failure_same_as_no_key_witness:
  "loadFromStorage
     \<lparr>encrypt = (\<lambda>d p. p @ d),
      decrypt = (\<lambda>c p. if take (length p) c = p then Inr (drop (length p) c)
                        else Inl (JsError ''Malformed UTF-8 data'')),
      stringify = (\<lambda>k. ''key''),
      parse = (\<lambda>t. if t = ''key''
                      then Inr \<lparr>privateKey = ''0xaa'', publicKey = ''0xbb'', expiresAt = 5000,
                                allowances = [\<lparr>asset = ''ytest.usd'', amount = ''100''\<rparr>]\<rparr>
                      else Inl (JsError ''Unexpected token'')),
      generatePrivateKey = ''0xaa'', addressOf = (\<lambda>k. ''0xbb''),
      getError = None, setError = None, removeError = None\<rparr>
     1000 ''wrong''
     \<lparr>encryptedSessionKey = Some ''rightkey'', sessionKeyExpiry = Some 5000\<rparr>
   = (None, \<lparr>encryptedSessionKey = Some ''rightkey'', sessionKeyExpiry = Some 5000\<rparr>)"
  using load_failure_same_as_no_key[of
     "\<lparr>encrypt = (\<lambda>d p. p @ d),
      decrypt = (\<lambda>c p. if take (length p) c = p then Inr (drop (length p) c)
                        else Inl (JsError ''Malformed UTF-8 data'')),
      stringify = (\<lambda>k. ''key''),
      parse = (\<lambda>t. if t = ''key''
                      then Inr \<lparr>privateKey = ''0xaa'', publicKey = ''0xbb'', expiresAt = 5000,
                                allowances = [\<lparr>asset = ''ytest.usd'', amount = ''100''\<rparr>]\<rparr>
                      else Inl (JsError ''Unexpected token'')),
      generatePrivateKey = ''0xaa'', addressOf = (\<lambda>k. ''0xbb''),
      getError = None, setError = None, removeError = None\<rparr>"
     "''rightkey''" "''wrong''" "JsError ''Malformed UTF-8 data''" 1000
     "\<lparr>encryptedSessionKey = Some ''rightkey'', sessionKeyExpiry = Some 5000\<rparr>"]
  by simp

text \<open>
  Claim C7 as stated fails. With a cipher that puts the password in front of the text:
  the stored key loads under the right password; under a wrong password, and for a
  corrupt ciphertext under the right one, the result is \<open>null\<close>, which is also the
  result for an empty storage.
\<close>

theorem load_failure_distinct_counterexample:
  "fst (loadFromStorage
     \<lparr>encrypt = (\<lambda>d p. p @ d),
      decrypt = (\<lambda>c p. if take (length p) c = p then Inr (drop (length p) c)
                        else Inl (JsError ''Malformed UTF-8 data'')),
      stringify = (\<lambda>k. ''key''),
      parse = (\<lambda>t. if t = ''key''
                      then Inr \<lparr>privateKey = ''0xaa'', publicKey = ''0xbb'', expiresAt = 5000,
                                allowances = [\<lparr>asset = ''ytest.usd'', amount = ''100''\<rparr>]\<rparr>
                      else Inl (JsError ''Unexpected token'')),
      generatePrivateKey = ''0xaa'', addressOf = (\<lambda>k. ''0xbb''),
      getError = None, setError = None, removeError = None\<rparr>
     1000 ''right''
     \<lparr>encryptedSessionKey = Some ''rightkey'', sessionKeyExpiry = Some 5000\<rparr>)
   = Some \<lparr>privateKey = ''0xaa'', publicKey = ''0xbb'', expiresAt = 5000,
        allowances = [\<lparr>asset = ''ytest.usd'', amount = ''100''\<rparr>]\<rparr>
   \<and> fst (loadFromStorage
     \<lparr>encrypt = (\<lambda>d p. p @ d),
      decrypt = (\<lambda>c p. if take (length p) c = p then Inr (drop (length p) c)
                        else Inl (JsError ''Malformed UTF-8 data'')),
      stringify = (\<lambda>k. ''key''),
      parse = (\<lambda>t. if t = ''key''
                      then Inr \<lparr>privateKey = ''0xaa'', publicKey = ''0xbb'', expiresAt = 5000,
                                allowances = [\<lparr>asset = ''ytest.usd'', amount = ''100''\<rparr>]\<rparr>
                      else Inl (JsError ''Unexpected token'')),
      generatePrivateKey = ''0xaa'', addressOf = (\<lambda>k. ''0xbb''),
      getError = None, setError = None, removeError = None\<rparr>
     1000 ''wrong''
     \<lparr>encryptedSessionKey = Some ''rightkey'', sessionKeyExpiry = Some 5000\<rparr>)
   = fst (loadFromStorage
     \<lparr>encrypt = (\<lambda>d p. p @ d),
      decrypt = (\<lambda>c p. if take (length p) c = p then Inr (drop (length p) c)
                        else Inl (JsError ''Malformed UTF-8 data'')),
      stringify = (\<lambda>k. ''key''),
      parse = (\<lambda>t. if t = ''key''
                      then Inr \<lparr>privateKey = ''0xaa'', publicKey = ''0xbb'', expiresAt = 5000,
                                allowances = [\<lparr>asset = ''ytest.usd'', amount = ''100''\<rparr>]\<rparr>
                      else Inl (JsError ''Unexpected token'')),
      generatePrivateKey = ''0xaa'', addressOf = (\<lambda>k. ''0xbb''),
      getError = None, setError = None, removeError = None\<rparr>
     1000 ''wrong''
     \<lparr>encryptedSessionKey = None, sessionKeyExpiry = None\<rparr>)
   \<and> fst (loadFromStorage
     \<lparr>encrypt = (\<lambda>d p. p @ d),
      decrypt = (\<lambda>c p. if take (length p) c = p then Inr (drop (length p) c)
                        else Inl (JsError ''Malformed UTF-8 data'')),
      stringify = (\<lambda>k. ''key''),
      parse = (\<lambda>t. if t = ''key''
                      then Inr \<lparr>privateKey = ''0xaa'', publicKey = ''0xbb'', expiresAt = 5000,
                                allowances = [\<lparr>asset = ''ytest.usd'', amount = ''100''\<rparr>]\<rparr>
                      else Inl (JsError ''Unexpected token'')),
      generatePrivateKey = ''0xaa'', addressOf = (\<lambda>k. ''0xbb''),
      getError = None, setError = None, removeError = None\<rparr>
     1000 ''right''
     \<lparr>encryptedSessionKey = Some ''rightk#y'', sessionKeyExpiry = Some 5000\<rparr>)
   = fst (loadFromStorage
     \<lparr>encrypt = (\<lambda>d p. p @ d),
      decrypt = (\<lambda>c p. if take (length p) c = p then Inr (drop (length p) c)
                        else Inl (JsError ''Malformed UTF-8 data'')),
      stringify = (\<lambda>k. ''key''),
      parse = (\<lambda>t. if t = ''key''
                      then Inr \<lparr>privateKey = ''0xaa'', publicKey = ''0xbb'', expiresAt = 5000,
                                allowances = [\<lparr>asset = ''ytest.usd'', amount = ''100''\<rparr>]\<rparr>
                      else Inl (JsError ''Unexpected token'')),
      generatePrivateKey = ''0xaa'', addressOf = (\<lambda>k. ''0xbb''),
      getError = None, setError = None, removeError = None\<rparr>
     1000 ''right''
     \<lparr>encryptedSessionKey = None, sessionKeyExpiry = None\<rparr>)"
  by (simp add: loadFromStorage_def bind_def isExpired_def)

end
